theory Spec2Isabelle
  imports Complex_Main "HOL-Library.Log_Nat"
begin

section \<open>Strings\<close>

text \<open>
  A JavaScript string is a sequence of UTF-16 code units. The tokenizer indexes the
  input by code unit (\<^verbatim>\<open>this.input[this.pos]\<close>) and the printer emits the
  em-dash U+2014, which is one code unit but no 8-bit character; a string is
  therefore modelled as the list of its code units, each a natural number.
  \<open>js\<close> turns an ASCII literal into such a list.
\<close>

type_synonym jschar = nat
type_synonym jsstring = "nat list"

definition js :: "string \<Rightarrow> jsstring" where
  "js s = map of_char s"

definition ch :: "char \<Rightarrow> jschar" where
  "ch c = of_char c"

definition emdash :: jschar where
  "emdash = 8212"

text \<open>Truthiness of a string: the empty string is falsy.\<close>

definition truthy :: "jsstring \<Rightarrow> bool" where
  "truthy s = (s \<noteq> [])"

text \<open>Number to string conversion of a non-negative integer, as a template literal does it.\<close>

fun showNat :: "nat \<Rightarrow> jsstring" where
  "showNat n = (if n < 10 then [48 + n] else showNat (n div 10) @ [48 + n mod 10])"

declare showNat.simps [simp del]

text \<open>\<^verbatim>\<open>Array.prototype.join\<close>.\<close>

fun join :: "jsstring \<Rightarrow> jsstring list \<Rightarrow> jsstring" where
  "join sep [] = []"
| "join sep [x] = x"
| "join sep (x # y # ys) = x @ sep @ join sep (y # ys)"

text \<open>
  \<^verbatim>\<open>String.prototype.trim\<close> removes the white space and line terminator code
  units of ECMAScript from both ends.
\<close>

definition isTrimmed :: "jschar \<Rightarrow> bool" where
  "isTrimmed c = (c \<in> set [9, 10, 11, 12, 13, 32, 160, 5760, 8192, 8193, 8194, 8195, 8196,
      8197, 8198, 8199, 8200, 8201, 8202, 8232, 8233, 8239, 8287, 12288, 65279])"

definition trim :: "jsstring \<Rightarrow> jsstring" where
  "trim s = rev (dropWhile isTrimmed (rev (dropWhile isTrimmed s)))"

section \<open>Tokens (dsl-parser.ts)\<close>

datatype toktype =
    ENTITY | WEAK | RELATION | IDENTIFYING | COMPOSITE | MULTIVALUED | DERIVED
  | PK | FK | IDENTIFIED | BY | TOTAL | PARTIAL | M
  | IDENTIFIER | ONE | NUMBER
  | COLON | LPAREN | RPAREN | COMMA | DOT | PLUS | ARROW | DASH | EOF
  | INHERITED jsstring

text \<open>
  The \<^verbatim>\<open>type\<close> field of a token is a string in the source, with one exception:
  \<^verbatim>\<open>readIdentifier\<close> looks the word up in an object literal, and for a word that
  names a member of \<^verbatim>\<open>Object.prototype\<close> the lookup finds that member, so that the
  type of the token is a function or an object. \<open>INHERITED\<close> is such a type, with
  the word; it is equal to none of the strings that the parser compares types with.
  \<open>toktypeName\<close> is the text of a type in a template literal; for an inherited
  member it is the text that the V8 engine gives.
\<close>

fun toktypeName :: "toktype \<Rightarrow> jsstring" where
  "toktypeName ENTITY = js ''ENTITY''"
| "toktypeName WEAK = js ''WEAK''"
| "toktypeName RELATION = js ''RELATION''"
| "toktypeName IDENTIFYING = js ''IDENTIFYING''"
| "toktypeName COMPOSITE = js ''COMPOSITE''"
| "toktypeName MULTIVALUED = js ''MULTIVALUED''"
| "toktypeName DERIVED = js ''DERIVED''"
| "toktypeName PK = js ''PK''"
| "toktypeName FK = js ''FK''"
| "toktypeName IDENTIFIED = js ''IDENTIFIED''"
| "toktypeName BY = js ''BY''"
| "toktypeName TOTAL = js ''TOTAL''"
| "toktypeName PARTIAL = js ''PARTIAL''"
| "toktypeName M = js ''M''"
| "toktypeName IDENTIFIER = js ''IDENTIFIER''"
| "toktypeName ONE = js ''ONE''"
| "toktypeName NUMBER = js ''NUMBER''"
| "toktypeName COLON = js ''COLON''"
| "toktypeName LPAREN = js ''LPAREN''"
| "toktypeName RPAREN = js ''RPAREN''"
| "toktypeName COMMA = js ''COMMA''"
| "toktypeName DOT = js ''DOT''"
| "toktypeName PLUS = js ''PLUS''"
| "toktypeName ARROW = js ''ARROW''"
| "toktypeName DASH = js ''DASH''"
| "toktypeName EOF = js ''EOF''"
| "toktypeName (INHERITED v) =
     (if v = js ''__proto__'' then js ''[object Object]''
      else if v = js ''constructor'' then js ''function Object() { [native code] }''
      else js ''function '' @ v @ js ''() { [native code] }'')"

record token =
  ttype :: toktype
  tvalue :: jsstring
  tline :: nat
  tcolumn :: nat

definition mkToken :: "toktype \<Rightarrow> jsstring \<Rightarrow> nat \<Rightarrow> nat \<Rightarrow> token" where
  "mkToken ty v l c = \<lparr>ttype = ty, tvalue = v, tline = l, tcolumn = c\<rparr>"

section \<open>Tokenizer\<close>

definition isLetter :: "jschar \<Rightarrow> bool" where
  \<comment> \<open>\<^verbatim>\<open>/[a-zA-Z_]/\<close>\<close>
  "isLetter c = ((97 \<le> c \<and> c \<le> 122) \<or> (65 \<le> c \<and> c \<le> 90) \<or> c = 95)"

definition isDigit :: "jschar \<Rightarrow> bool" where
  \<comment> \<open>\<^verbatim>\<open>/[0-9]/\<close>\<close>
  "isDigit c = (48 \<le> c \<and> c \<le> 57)"

definition isIdentChar :: "jschar \<Rightarrow> bool" where
  \<comment> \<open>\<^verbatim>\<open>/[a-zA-Z0-9_]/\<close>\<close>
  "isIdentChar c = (isLetter c \<or> isDigit c)"

text \<open>The keyword table of \<^verbatim>\<open>readIdentifier\<close>; any other word is an IDENTIFIER.\<close>

definition keywordTable :: "(jsstring \<times> toktype) list" where
  "keywordTable =
    [(js ''Entity'', ENTITY), (js ''Weak'', WEAK), (js ''Relation'', RELATION),
     (js ''Identifying'', IDENTIFYING), (js ''Composite'', COMPOSITE),
     (js ''Multivalued'', MULTIVALUED), (js ''Derived'', DERIVED), (js ''PK'', PK),
     (js ''FK'', FK), (js ''Identified'', IDENTIFIED), (js ''By'', BY),
     (js ''total'', TOTAL), (js ''partial'', PARTIAL), (js ''M'', M)]"

text \<open>
  The names that every object inherits from \<^verbatim>\<open>Object.prototype\<close>: for these
  \<^verbatim>\<open>keywords[value]\<close> is defined and truthy although the table has no such key.
\<close>

definition inheritedNames :: "jsstring list" where
  "inheritedNames =
    [js ''constructor'', js ''__defineGetter__'', js ''__defineSetter__'',
     js ''hasOwnProperty'', js ''__lookupGetter__'', js ''__lookupSetter__'',
     js ''isPrototypeOf'', js ''propertyIsEnumerable'', js ''toString'', js ''valueOf'',
     js ''__proto__'', js ''toLocaleString'']"

definition keywordType :: "jsstring \<Rightarrow> toktype" where
  \<comment> \<open>\<^verbatim>\<open>keywords[value] || 'IDENTIFIER'\<close>\<close>
  "keywordType v =
     (case map_of keywordTable v of
        Some ty \<Rightarrow> ty
      | None \<Rightarrow> if v \<in> set inheritedNames then INHERITED v else IDENTIFIER)"

text \<open>
  \<^verbatim>\<open>skipWhitespaceAndComments\<close>: the state is the rest of the input (from
  \<^verbatim>\<open>this.pos\<close> on) and the column; the result is both after the loop. A comment
  runs up to, not including, the next line feed, every code unit advancing the column.
\<close>

function skipWhitespaceAndComments :: "jsstring \<Rightarrow> nat \<Rightarrow> jsstring \<times> nat" where
  "skipWhitespaceAndComments [] col = ([], col)"
| "skipWhitespaceAndComments (c # cs) col =
     (if c = ch CHR '' '' \<or> c = 9 \<or> c = 13 then skipWhitespaceAndComments cs (col + 1)
      else if c = ch CHR ''#'' then
        skipWhitespaceAndComments (dropWhile (\<lambda>d. d \<noteq> 10) (c # cs))
          (col + length (takeWhile (\<lambda>d. d \<noteq> 10) (c # cs)))
      else (c # cs, col))"
  by pat_completeness auto
termination
  by (relation "measure (\<lambda>(s, col). length s)")
     (auto simp: ch_def le_imp_less_Suc length_dropWhile_le)

text \<open>
  \<^verbatim>\<open>readIdentifier\<close> and \<^verbatim>\<open>readNumber\<close>: the token read at the front of the
  input; the loop of the source consumes the longest prefix of the character class.
\<close>

definition readIdentifier :: "jsstring \<Rightarrow> nat \<Rightarrow> nat \<Rightarrow> token" where
  "readIdentifier s line col =
     (let v = takeWhile isIdentChar s in mkToken (keywordType v) v line col)"

definition readNumber :: "jsstring \<Rightarrow> nat \<Rightarrow> nat \<Rightarrow> token" where
  "readNumber s line col =
     (let v = takeWhile isDigit s in
      if v = js ''1'' then mkToken ONE (js ''1'') line col else mkToken NUMBER v line col)"

text \<open>
  The main loop of \<^verbatim>\<open>tokenize\<close>, on the rest of the input with the current line
  and column. The tokens come out in the order the source pushes them.
\<close>

function tokenizeFrom :: "jsstring \<Rightarrow> nat \<Rightarrow> nat \<Rightarrow> token list" where
  "tokenizeFrom s line col0 =
     (case skipWhitespaceAndComments s col0 of
        ([], col) \<Rightarrow> [mkToken EOF [] line col]
      | (c # cs, col) \<Rightarrow>
          if c = 10 then tokenizeFrom cs (line + 1) 1
          else if isLetter c then
            readIdentifier (c # cs) line col #
              tokenizeFrom (dropWhile isIdentChar cs) line
                (col + length (takeWhile isIdentChar (c # cs)))
          else if isDigit c then
            readNumber (c # cs) line col #
              tokenizeFrom (dropWhile isDigit cs) line
                (col + length (takeWhile isDigit (c # cs)))
          else if c = ch CHR '':'' then
            mkToken COLON (js '':'') line col # tokenizeFrom cs line (col + 1)
          else if c = ch CHR ''('' then
            mkToken LPAREN (js ''('') line col # tokenizeFrom cs line (col + 1)
          else if c = ch CHR '')'' then
            mkToken RPAREN (js '')'') line col # tokenizeFrom cs line (col + 1)
          else if c = ch CHR '','' then
            mkToken COMMA (js '','') line col # tokenizeFrom cs line (col + 1)
          else if c = ch CHR ''.'' then
            mkToken DOT (js ''.'') line col # tokenizeFrom cs line (col + 1)
          else if c = ch CHR ''+'' then
            mkToken PLUS (js ''+'') line col # tokenizeFrom cs line (col + 1)
          else if c = ch CHR ''-'' \<and> take 1 cs = js ''>'' then
            mkToken ARROW (js ''->'') line col # tokenizeFrom (drop 1 cs) line (col + 2)
          else if c = emdash \<or> (c = ch CHR ''-'' \<and> take 1 cs = js ''-'') then
            (if c = emdash then
               mkToken DASH [emdash] line col # tokenizeFrom cs line (col + 1)
             else
               mkToken DASH (js ''--'') line col # tokenizeFrom (drop 1 cs) line (col + 2))
          else tokenizeFrom cs line (col + 1))"
  by pat_completeness auto

lemma skipWhitespaceAndComments_length:
  "skipWhitespaceAndComments s col = (s', col') \<Longrightarrow> length s' \<le> length s"
proof (induction s col arbitrary: s' col' rule: skipWhitespaceAndComments.induct)
  case (1 col)
  then show ?case by simp
next
  case (2 c cs col)
  show ?case
  proof (cases "c = ch CHR '' '' \<or> c = 9 \<or> c = 13")
    case True
    with 2 show ?thesis by (fastforce simp: le_Suc_eq)
  next
    case ws: False
    show ?thesis
    proof (cases "c = ch CHR ''#''")
      case True
      with ws 2 have "length s' \<le> length (dropWhile (\<lambda>d. d \<noteq> 10) (c # cs))"
        by (simp del: dropWhile.simps takeWhile.simps)
      also have "\<dots> \<le> length (c # cs)" by (rule length_dropWhile_le)
      finally show ?thesis .
    next
      case False
      with ws 2 show ?thesis by auto
    qed
  qed
qed

lemma skip_length_less:
  "(c # cs, col) = skipWhitespaceAndComments s col0 \<Longrightarrow> length cs < length s"
  using skipWhitespaceAndComments_length [of s col0 "c # cs" col] by simp

lemma skip_length_dropWhile_less:
  "(c # cs, col) = skipWhitespaceAndComments s col0 \<Longrightarrow> length (dropWhile P cs) < length s"
  using skip_length_less [of c cs col s col0] length_dropWhile_le [of P cs] by simp

lemma skip_length_drop_less:
  "(c # cs, col) = skipWhitespaceAndComments s col0 \<Longrightarrow> length cs - n < length s"
  using skip_length_less [of c cs col s col0] by simp

termination tokenizeFrom
  by (relation "measure (\<lambda>(s, line, col). length s)")
     (simp_all add: skip_length_less skip_length_dropWhile_less skip_length_drop_less)

declare tokenizeFrom.simps [simp del]

definition tokenize :: "jsstring \<Rightarrow> token list" where
  "tokenize input = tokenizeFrom input 1 1"

section \<open>The abstract syntax tree (shared/erd-types.ts)\<close>

text \<open>
  The interfaces of the source become records; \<open>AttributeNode\<close> refers to itself and
  is a datatype with selectors. An optional field is an \<open>option\<close>, \<open>None\<close> standing
  for \<^verbatim>\<open>undefined\<close> or an absent key. Field names that several interfaces share get
  a prefix (\<open>a_name\<close>, \<open>e_name\<close>, \<open>r_name\<close>, \<open>fkEntityName\<close>, ...).
\<close>

datatype attributeType = Simple | Composite | Multivalued | Derived | Typed
datatype keyType = Pk | Fk | NoKey
datatype cardinality = One | Many
datatype participation = Total | Partial
datatype entityType = Strong | Weak
datatype relationshipType = Normal | Identifying

record foreignKeyTarget =
  fkEntityName :: jsstring
  fkAttributeName :: jsstring

datatype attributeNode =
  AttributeNode (a_name: jsstring) (attributeType: attributeType) (keyType: keyType)
    (fkTarget: "foreignKeyTarget option") (dataType: "jsstring option")
    (subAttributes: "attributeNode list option")

record entityNode =
  e_name :: jsstring
  entityType :: entityType
  e_attributes :: "attributeNode list"
  identifiedBy :: "foreignKeyTarget list option"

record relationshipSide =
  entityName :: jsstring
  cardinality :: cardinality
  participation :: participation

record relationshipNode =
  r_name :: jsstring
  relationshipType :: relationshipType
  leftSide :: relationshipSide
  rightSide :: relationshipSide
  verb :: jsstring
  r_attributes :: "attributeNode list"

record eRDiagramAST =
  entities :: "entityNode list"
  relationships :: "relationshipNode list"

text \<open>The text of a cardinality and of a participation (the string literal types).\<close>

fun cardinalityText :: "cardinality \<Rightarrow> jsstring" where
  "cardinalityText One = js ''1''"
| "cardinalityText Many = js ''M''"

fun participationText :: "participation \<Rightarrow> jsstring" where
  "participationText Total = js ''total''"
| "participationText Partial = js ''partial''"

section \<open>Parser\<close>

text \<open>
  A thrown \<^verbatim>\<open>Error\<close> is the left summand, carrying the message. The parser's state
  \<^verbatim>\<open>(this.tokens, this.pos)\<close> is modelled by the tokens from \<^verbatim>\<open>this.pos\<close> on: the
  class is private to \<^verbatim>\<open>parseDSL\<close>, which hands it the tokenizer's output, a list
  whose last and only EOF token ends it, and \<^verbatim>\<open>advance\<close> never steps over EOF, so
  that the list of remaining tokens is never empty (\<open>tokenize_ends_EOF\<close> below). On
  the empty list, which the parser never sees, \<open>current\<close> is an EOF token.
\<close>

datatype error = Error jsstring

definition bindE :: "error + 'a \<Rightarrow> ('a \<Rightarrow> error + 'b) \<Rightarrow> error + 'b" where
  "bindE m f = (case m of Inl e \<Rightarrow> Inl e | Inr x \<Rightarrow> f x)"

definition current :: "token list \<Rightarrow> token" where
  "current ts = (case ts of [] \<Rightarrow> mkToken EOF [] 0 0 | t # _ \<Rightarrow> t)"

definition isAtEnd :: "token list \<Rightarrow> bool" where
  "isAtEnd ts = (ttype (current ts) = EOF)"

definition check :: "toktype \<Rightarrow> token list \<Rightarrow> bool" where
  "check ty ts = (\<not> isAtEnd ts \<and> ttype (current ts) = ty)"

definition advance :: "token list \<Rightarrow> token list" where
  "advance ts = (if \<not> isAtEnd ts then tl ts else ts)"

definition peek :: "nat \<Rightarrow> token list \<Rightarrow> token option" where
  "peek offset ts = (if offset \<ge> length ts then None else Some (ts ! offset))"

definition expectMessage :: "toktype \<Rightarrow> token \<Rightarrow> jsstring" where
  "expectMessage ty t =
     js ''Expected '' @ toktypeName ty @ js '' but got '' @ toktypeName (ttype t) @
     js '' at line '' @ showNat (tline t) @ js '', column '' @ showNat (tcolumn t)"

definition expect :: "toktype \<Rightarrow> token list \<Rightarrow> error + (token \<times> token list)" where
  "expect ty ts =
     (if check ty ts then Inr (current ts, advance ts)
      else Inl (Error (expectMessage ty (current ts))))"

definition isEntityOrRelationStart :: "token list \<Rightarrow> bool" where
  "isEntityOrRelationStart ts =
     (check ENTITY ts \<or> check WEAK ts \<or> check RELATION ts \<or> check IDENTIFYING ts)"

definition parseCardinality :: "token list \<Rightarrow> error + (cardinality \<times> token list)" where
  "parseCardinality ts =
     (if check ONE ts then Inr (One, advance ts)
      else if check M ts then Inr (Many, advance ts)
      else Inl (Error (js ''Expected cardinality (1 or M) at line '' @
                       showNat (tline (current ts)))))"

definition parseParticipation :: "token list \<Rightarrow> error + (participation \<times> token list)" where
  "parseParticipation ts =
     (if check TOTAL ts then Inr (Total, advance ts)
      else if check PARTIAL ts then Inr (Partial, advance ts)
      else Inl (Error (js ''Expected participation (total or partial) at line '' @
                       showNat (tline (current ts)))))"

definition parseFkTarget :: "token list \<Rightarrow> error + (foreignKeyTarget \<times> token list)" where
  "parseFkTarget ts =
     bindE (expect IDENTIFIER ts) (\<lambda>(e, ts1).
     bindE (expect DOT ts1) (\<lambda>(_, ts2).
     bindE (expect IDENTIFIER ts2) (\<lambda>(a, ts3).
     Inr (\<lparr>fkEntityName = tvalue e, fkAttributeName = tvalue a\<rparr>, ts3))))"

lemma bindE_cong [fundef_cong]:
  "m = m' \<Longrightarrow> (\<And>x. m' = Inr x \<Longrightarrow> f x = f' x) \<Longrightarrow> bindE m f = bindE m' f'"
  by (cases m') (simp_all add: bindE_def)

lemma bindE_Inr_iff:
  "bindE m f = Inr y \<longleftrightarrow> (\<exists>x. m = Inr x \<and> f x = Inr y)"
  by (cases m) (simp_all add: bindE_def)

lemma bindE_simps [simp]:
  "bindE (Inl e) f = Inl e" "bindE (Inr x) f = f x"
  by (simp_all add: bindE_def)

lemma advance_length: "\<not> isAtEnd ts \<Longrightarrow> length (advance ts) < length ts"
  by (cases ts) (simp_all add: advance_def isAtEnd_def current_def mkToken_def)

lemma advance_length_le: "length (advance ts) \<le> length ts"
  by (simp add: advance_def)

lemma check_length: "check ty ts \<Longrightarrow> length (advance ts) < length ts"
  by (simp add: check_def advance_length)

lemma expect_length: "expect ty ts = Inr (t, ts') \<Longrightarrow> length ts' < length ts"
  by (auto simp: expect_def check_length split: if_splits)

lemma parseFkTarget_length: "parseFkTarget ts = Inr (x, ts') \<Longrightarrow> length ts' < length ts"
  by (fastforce simp: parseFkTarget_def bindE_Inr_iff dest: expect_length)

text \<open>
  \<^verbatim>\<open>parseIdentifiedByList\<close>: one target, then the loop over \<^verbatim>\<open>+ target\<close>.
\<close>

function identifiedByLoop :: "token list \<Rightarrow> error + (foreignKeyTarget list \<times> token list)" where
  "identifiedByLoop ts =
     (if check PLUS ts then
        bindE (parseFkTarget (advance ts)) (\<lambda>(t, ts1).
        bindE (identifiedByLoop ts1) (\<lambda>(targets, ts2). Inr (t # targets, ts2)))
      else Inr ([], ts))"
  by pat_completeness auto
termination
proof (relation "measure length", goal_cases)
  case 1
  then show ?case by simp
next
  case (2 ts x t ts1)
  then show ?case
    using parseFkTarget_length [of "advance ts" t ts1] advance_length_le [of ts] by simp
qed

declare identifiedByLoop.simps [simp del]

definition parseIdentifiedByList ::
  "token list \<Rightarrow> error + (foreignKeyTarget list \<times> token list)" where
  "parseIdentifiedByList ts =
     bindE (parseFkTarget ts) (\<lambda>(t, ts1).
     bindE (identifiedByLoop ts1) (\<lambda>(targets, ts2). Inr (t # targets, ts2)))"

text \<open>The object literal of a plain attribute: simple, no key, the optional fields absent.\<close>

definition simpleAttribute :: "jsstring \<Rightarrow> attributeNode" where
  "simpleAttribute n = AttributeNode n Simple NoKey None None None"

definition nextIsMarker :: "token list \<Rightarrow> bool" where
  \<comment> \<open>the test on \<^verbatim>\<open>this.peek(1)\<close> in \<^verbatim>\<open>parseSubAttributeList\<close>\<close>
  "nextIsMarker ts =
     (case peek 1 ts of None \<Rightarrow> False
      | Some nextToken \<Rightarrow> ttype nextToken = PK \<or> ttype nextToken = FK \<or>
          ttype nextToken = COMPOSITE \<or> ttype nextToken = MULTIVALUED \<or>
          ttype nextToken = DERIVED)"

function parseSubAttributeList :: "token list \<Rightarrow> error + (attributeNode list \<times> token list)" where
  "parseSubAttributeList ts =
     (if \<not> isAtEnd ts \<and> check IDENTIFIER ts then
        (if nextIsMarker ts then Inr ([], ts)
         else
           bindE (expect IDENTIFIER ts) (\<lambda>(t, ts1).
             if isEntityOrRelationStart ts1 \<or> check IDENTIFIED ts1 then
               Inr ([simpleAttribute (tvalue t)], ts1)
             else
               (if isEntityOrRelationStart ts1 \<or> check IDENTIFIED ts1 then
                  Inr ([simpleAttribute (tvalue t)], ts1)
                else
                  bindE (parseSubAttributeList ts1) (\<lambda>(attrs, ts2).
                    Inr (simpleAttribute (tvalue t) # attrs, ts2)))))
      else Inr ([], ts))"
  by pat_completeness auto
termination
  by (relation "measure length") (auto dest: expect_length)

declare parseSubAttributeList.simps [simp del]

definition parseAttribute :: "token list \<Rightarrow> error + (attributeNode \<times> token list)" where
  "parseAttribute ts =
     bindE (expect IDENTIFIER ts) (\<lambda>(n, ts1).
       if check PK ts1 then
         Inr (AttributeNode (tvalue n) Simple Pk None None None, advance ts1)
       else if check FK ts1 then
         (let ts2 = advance ts1 in
          if check ARROW ts2 then
            bindE (parseFkTarget (advance ts2)) (\<lambda>(target, ts3).
              Inr (AttributeNode (tvalue n) Simple Fk (Some target) None None, ts3))
          else Inr (AttributeNode (tvalue n) Simple Fk None None None, ts2))
       else if check COMPOSITE ts1 then
         bindE (expect COLON (advance ts1)) (\<lambda>(_, ts2).
         bindE (parseSubAttributeList ts2) (\<lambda>(subs, ts3).
           Inr (AttributeNode (tvalue n) Composite NoKey None None (Some subs), ts3)))
       else if check MULTIVALUED ts1 then
         Inr (AttributeNode (tvalue n) Multivalued NoKey None None None, advance ts1)
       else if check DERIVED ts1 then
         Inr (AttributeNode (tvalue n) Derived NoKey None None None, advance ts1)
       else if check COLON ts1 then
         bindE (expect IDENTIFIER (advance ts1)) (\<lambda>(d, ts2).
           Inr (AttributeNode (tvalue n) Typed NoKey None (Some (tvalue d)) None, ts2))
       else Inr (AttributeNode (tvalue n) Simple NoKey None None None, ts1))"

lemma parseSubAttributeList_length:
  "parseSubAttributeList ts = Inr (attrs, ts') \<Longrightarrow> length ts' \<le> length ts"
proof (induction ts arbitrary: attrs ts' rule: parseSubAttributeList.induct)
  case (1 ts)
  show ?case
  proof (cases "\<not> isAtEnd ts \<and> check IDENTIFIER ts \<and> \<not> nextIsMarker ts")
    case False
    with "1.prems" show ?thesis
      by (subst (asm) parseSubAttributeList.simps) (auto split: if_splits)
  next
    case True
    then obtain t ts1 where e: "expect IDENTIFIER ts = Inr (t, ts1)"
      by (auto simp: expect_def)
    then have l: "length ts1 < length ts" by (rule expect_length)
    show ?thesis
    proof (cases "isEntityOrRelationStart ts1 \<or> check IDENTIFIED ts1")
      case True
      with \<open>\<not> isAtEnd ts \<and> check IDENTIFIER ts \<and> \<not> nextIsMarker ts\<close> e l "1.prems"
      show ?thesis by (subst (asm) parseSubAttributeList.simps) auto
    next
      case False
      with \<open>\<not> isAtEnd ts \<and> check IDENTIFIER ts \<and> \<not> nextIsMarker ts\<close> e "1.prems"
      obtain attrs' where r: "parseSubAttributeList ts1 = Inr (attrs', ts')"
        by (subst (asm) parseSubAttributeList.simps) (auto simp: bindE_Inr_iff)
      from "1.IH" [of "(t, ts1)" t ts1 attrs' ts'] True e False r
      have "length ts' \<le> length ts1" by simp
      with l show ?thesis by simp
    qed
  qed
qed

lemma parseAttribute_length:
  "parseAttribute ts = Inr (a, ts') \<Longrightarrow> length ts' < length ts"
  unfolding parseAttribute_def
  by (auto simp: bindE_Inr_iff Let_def split: if_splits
           dest!: expect_length parseFkTarget_length parseSubAttributeList_length
           intro: less_trans le_less_trans less_le_trans
                  order.strict_trans2 [OF _ advance_length_le]
                  order.strict_trans1 [OF advance_length_le])

function parseAttributeList :: "token list \<Rightarrow> error + (attributeNode list \<times> token list)" where
  "parseAttributeList ts =
     (if \<not> isAtEnd ts \<and> \<not> isEntityOrRelationStart ts then
        (if check IDENTIFIER ts then
           bindE (parseAttribute ts) (\<lambda>(a, ts1).
           bindE (parseAttributeList ts1) (\<lambda>(attrs, ts2). Inr (a # attrs, ts2)))
         else if check IDENTIFIED ts then Inr ([], ts)
         else parseAttributeList (advance ts))
      else Inr ([], ts))"
  by pat_completeness auto
termination
  by (relation "measure length") (auto dest: parseAttribute_length simp: advance_length)

declare parseAttributeList.simps [simp del]

function parseRelationAttributeList ::
  "token list \<Rightarrow> error + (attributeNode list \<times> token list)" where
  "parseRelationAttributeList ts =
     (if \<not> isAtEnd ts \<and> \<not> isEntityOrRelationStart ts \<and> check IDENTIFIER ts then
        bindE (expect IDENTIFIER ts) (\<lambda>(t, ts1).
        bindE (parseRelationAttributeList ts1) (\<lambda>(attrs, ts2).
          Inr (simpleAttribute (tvalue t) # attrs, ts2)))
      else Inr ([], ts))"
  by pat_completeness auto
termination
  by (relation "measure length") (auto dest: expect_length)

declare parseRelationAttributeList.simps [simp del]

definition parseEntity :: "token list \<Rightarrow> error + (entityNode \<times> token list)" where
  "parseEntity ts =
     bindE (expect ENTITY ts) (\<lambda>(_, ts1).
     bindE (expect IDENTIFIER ts1) (\<lambda>(n, ts2).
     bindE (expect COLON ts2) (\<lambda>(_, ts3).
     bindE (parseAttributeList ts3) (\<lambda>(attrs, ts4).
       Inr (\<lparr>e_name = tvalue n, entityType = Strong, e_attributes = attrs,
             identifiedBy = None\<rparr>, ts4)))))"

definition parseWeakEntity :: "token list \<Rightarrow> error + (entityNode \<times> token list)" where
  "parseWeakEntity ts =
     bindE (expect WEAK ts) (\<lambda>(_, ts1).
     bindE (expect ENTITY ts1) (\<lambda>(_, ts2).
     bindE (expect IDENTIFIER ts2) (\<lambda>(n, ts3).
     bindE (expect COLON ts3) (\<lambda>(_, ts4).
     bindE (parseAttributeList ts4) (\<lambda>(attrs, ts5).
       if check IDENTIFIED ts5 then
         bindE (expect BY (advance ts5)) (\<lambda>(_, ts6).
         bindE (parseIdentifiedByList ts6) (\<lambda>(targets, ts7).
           Inr (\<lparr>e_name = tvalue n, entityType = Weak, e_attributes = attrs,
                 identifiedBy = Some targets\<rparr>, ts7)))
       else
         Inr (\<lparr>e_name = tvalue n, entityType = Weak, e_attributes = attrs,
               identifiedBy = None\<rparr>, ts5))))))"

text \<open>One side of a relation up to the participation: \<^verbatim>\<open>card ("," part)?\<close>.\<close>

definition parseOptionalParticipation ::
  "token list \<Rightarrow> error + (participation \<times> token list)" where
  "parseOptionalParticipation ts =
     (if check COMMA ts then parseParticipation (advance ts) else Inr (Partial, ts))"

definition parseRelation :: "token list \<Rightarrow> error + (relationshipNode \<times> token list)" where
  "parseRelation ts =
     bindE (expect RELATION ts) (\<lambda>(_, ts1).
     bindE (expect IDENTIFIER ts1) (\<lambda>(leftEntity, ts2).
     bindE (expect LPAREN ts2) (\<lambda>(_, ts3).
     bindE (parseCardinality ts3) (\<lambda>(leftCardinality, ts4).
     bindE (parseOptionalParticipation ts4) (\<lambda>(leftParticipation, ts5).
     bindE (expect RPAREN ts5) (\<lambda>(_, ts6).
     bindE (expect DASH ts6) (\<lambda>(_, ts7).
     bindE (expect LPAREN ts7) (\<lambda>(_, ts8).
     bindE (parseCardinality ts8) (\<lambda>(rightCardinality, ts9).
     bindE (parseOptionalParticipation ts9) (\<lambda>(rightParticipation, ts10).
     bindE (expect RPAREN ts10) (\<lambda>(_, ts11).
     bindE (expect IDENTIFIER ts11) (\<lambda>(rightEntity, ts12).
     bindE (expect COLON ts12) (\<lambda>(_, ts13).
     bindE (expect IDENTIFIER ts13) (\<lambda>(v, ts14).
     bindE (parseRelationAttributeList ts14) (\<lambda>(attrs, ts15).
       Inr (\<lparr>r_name = tvalue v, relationshipType = Normal,
             leftSide = \<lparr>entityName = tvalue leftEntity, cardinality = leftCardinality,
                         participation = leftParticipation\<rparr>,
             rightSide = \<lparr>entityName = tvalue rightEntity, cardinality = rightCardinality,
                          participation = rightParticipation\<rparr>,
             verb = tvalue v, r_attributes = attrs\<rparr>, ts15))))))))))))))))"

definition parseIdentifyingRelation ::
  "token list \<Rightarrow> error + (relationshipNode \<times> token list)" where
  "parseIdentifyingRelation ts =
     bindE (expect IDENTIFYING ts) (\<lambda>(_, ts1).
     bindE (expect RELATION ts1) (\<lambda>(_, ts2).
     bindE (expect IDENTIFIER ts2) (\<lambda>(leftEntity, ts3).
     bindE (expect LPAREN ts3) (\<lambda>(_, ts4).
     bindE (parseCardinality ts4) (\<lambda>(leftCardinality, ts5).
     bindE (expect RPAREN ts5) (\<lambda>(_, ts6).
     bindE (expect DASH ts6) (\<lambda>(_, ts7).
     bindE (expect LPAREN ts7) (\<lambda>(_, ts8).
     bindE (parseCardinality ts8) (\<lambda>(rightCardinality, ts9).
     bindE (expect RPAREN ts9) (\<lambda>(_, ts10).
     bindE (expect IDENTIFIER ts10) (\<lambda>(rightEntity, ts11).
     bindE (expect COLON ts11) (\<lambda>(_, ts12).
     bindE (expect IDENTIFIER ts12) (\<lambda>(v, ts13).
       Inr (\<lparr>r_name = tvalue v, relationshipType = Identifying,
             leftSide = \<lparr>entityName = tvalue leftEntity, cardinality = leftCardinality,
                         participation = Total\<rparr>,
             rightSide = \<lparr>entityName = tvalue rightEntity, cardinality = rightCardinality,
                          participation = Total\<rparr>,
             verb = tvalue v, r_attributes = []\<rparr>, ts13))))))))))))))"

lemma parseCardinality_length:
  "parseCardinality ts = Inr (c, ts') \<Longrightarrow> length ts' \<le> length ts"
  by (auto simp: parseCardinality_def advance_length_le split: if_splits)

lemma parseParticipation_length:
  "parseParticipation ts = Inr (c, ts') \<Longrightarrow> length ts' \<le> length ts"
  by (auto simp: parseParticipation_def advance_length_le split: if_splits)

lemma parseOptionalParticipation_length:
  "parseOptionalParticipation ts = Inr (c, ts') \<Longrightarrow> length ts' \<le> length ts"
  using parseParticipation_length [of "advance ts" c ts'] advance_length_le [of ts]
  by (auto simp: parseOptionalParticipation_def split: if_splits)

lemma parseAttributeList_length:
  "parseAttributeList ts = Inr (attrs, ts') \<Longrightarrow> length ts' \<le> length ts"
proof (induction ts arbitrary: attrs ts' rule: parseAttributeList.induct)
  case (1 ts)
  from "1.prems" show ?case
    apply (subst (asm) parseAttributeList.simps)
    apply (auto simp: bindE_Inr_iff split: if_splits)
    subgoal for a ts1 as
      using "1.IH"(1) [of "(a, ts1)" a ts1 as ts'] parseAttribute_length [of ts a ts1] by simp
    subgoal
      using "1.IH"(2) [of attrs ts'] advance_length_le [of ts] by simp
    done
qed

lemma parseRelationAttributeList_length:
  "parseRelationAttributeList ts = Inr (attrs, ts') \<Longrightarrow> length ts' \<le> length ts"
proof (induction ts arbitrary: attrs ts' rule: parseRelationAttributeList.induct)
  case (1 ts)
  from "1.prems" show ?case
    apply (subst (asm) parseRelationAttributeList.simps)
    apply (auto simp: bindE_Inr_iff split: if_splits)
    subgoal for a ts1 as
      using "1.IH" [of "(a, ts1)" a ts1 as ts'] expect_length [of IDENTIFIER ts a ts1] by simp
    done
qed

lemma identifiedByLoop_length:
  "identifiedByLoop ts = Inr (targets, ts') \<Longrightarrow> length ts' \<le> length ts"
proof (induction ts arbitrary: targets ts' rule: identifiedByLoop.induct)
  case (1 ts)
  from "1.prems" show ?case
    apply (subst (asm) identifiedByLoop.simps)
    apply (auto simp: bindE_Inr_iff split: if_splits)
    subgoal for a ts1 as
      using "1.IH" [of "(a, ts1)" a ts1 as ts'] parseFkTarget_length [of "advance ts" a ts1]
        advance_length_le [of ts] by simp
    done
qed

lemma parseEntity_length: "parseEntity ts = Inr (e, ts') \<Longrightarrow> length ts' < length ts"
  unfolding parseEntity_def
  by (auto simp: bindE_Inr_iff dest!: expect_length parseAttributeList_length)

lemma parseWeakEntity_length: "parseWeakEntity ts = Inr (e, ts') \<Longrightarrow> length ts' < length ts"
  unfolding parseWeakEntity_def parseIdentifiedByList_def
  by (auto simp: bindE_Inr_iff split: if_splits
      dest!: expect_length parseAttributeList_length identifiedByLoop_length parseFkTarget_length)
     (use advance_length_le in \<open>fastforce dest: le_less_trans\<close>)

lemma parseRelation_length: "parseRelation ts = Inr (r, ts') \<Longrightarrow> length ts' < length ts"
  unfolding parseRelation_def
  by (auto simp: bindE_Inr_iff dest!: expect_length parseCardinality_length
     parseOptionalParticipation_length parseRelationAttributeList_length)

lemma parseIdentifyingRelation_length:
  "parseIdentifyingRelation ts = Inr (r, ts') \<Longrightarrow> length ts' < length ts"
  unfolding parseIdentifyingRelation_def
  by (auto simp: bindE_Inr_iff dest!: expect_length parseCardinality_length)

text \<open>
  \<^verbatim>\<open>Parser.parse\<close>: the loop over the declarations. The two arrays the source pushes
  to are the two lists of the result.
\<close>

function parse :: "token list \<Rightarrow> error + eRDiagramAST" where
  "parse ts =
     (if \<not> isAtEnd ts then
        (if check ENTITY ts then
           bindE (parseEntity ts) (\<lambda>(e, ts1).
           bindE (parse ts1) (\<lambda>ast. Inr (ast\<lparr>entities := e # entities ast\<rparr>)))
         else if check WEAK ts then
           bindE (parseWeakEntity ts) (\<lambda>(e, ts1).
           bindE (parse ts1) (\<lambda>ast. Inr (ast\<lparr>entities := e # entities ast\<rparr>)))
         else if check RELATION ts then
           bindE (parseRelation ts) (\<lambda>(r, ts1).
           bindE (parse ts1) (\<lambda>ast. Inr (ast\<lparr>relationships := r # relationships ast\<rparr>)))
         else if check IDENTIFYING ts then
           bindE (parseIdentifyingRelation ts) (\<lambda>(r, ts1).
           bindE (parse ts1) (\<lambda>ast. Inr (ast\<lparr>relationships := r # relationships ast\<rparr>)))
         else parse (advance ts))
      else Inr \<lparr>entities = [], relationships = []\<rparr>)"
  by pat_completeness auto
termination
  by (relation "measure length")
     (auto dest: parseEntity_length parseWeakEntity_length parseRelation_length
        parseIdentifyingRelation_length simp: advance_length)

declare parse.simps [simp del]

definition parseDSL :: "jsstring \<Rightarrow> error + eRDiagramAST" where
  "parseDSL input = parse (tokenize input)"

section \<open>Printer\<close>

text \<open>
  \<^verbatim>\<open>generateAttribute\<close>. The tests \<^verbatim>\<open>attr.fkTarget\<close> and \<^verbatim>\<open>attr.subAttributes\<close>
  hold of every object and array, so they ask whether the field is defined;
  \<^verbatim>\<open>attr.dataType\<close> is a string and holds when it is defined and not empty.
\<close>

fun generateAttribute :: "attributeNode \<Rightarrow> jsstring \<Rightarrow> jsstring" where
  "generateAttribute (AttributeNode n aty kty fk dty subs) indent =
     (let line = indent @ n in
      if kty = Pk then line @ js '' PK''
      else if kty = Fk \<and> fk \<noteq> None then
        line @ js '' FK -> '' @ fkEntityName (the fk) @ js ''.'' @ fkAttributeName (the fk)
      else if aty = Composite \<and> subs \<noteq> None then
        (line @ js '' Composite:'') @ [10] @
          join [10] (map (\<lambda>sub. generateAttribute sub (indent @ js ''  '')) (the subs))
      else if aty = Multivalued then line @ js '' Multivalued''
      else if aty = Derived then line @ js '' Derived''
      else if aty = Typed \<and> (case dty of None \<Rightarrow> False | Some d \<Rightarrow> truthy d) then
        line @ js '': '' @ the dty
      else line)"

definition generateEntity :: "entityNode \<Rightarrow> jsstring list" where
  \<comment> \<open>the lines one entity pushes\<close>
  "generateEntity entity =
     [if entityType entity = Weak then js ''Weak Entity '' @ e_name entity @ js '':''
      else js ''Entity '' @ e_name entity @ js '':''] @
     map (\<lambda>attr. generateAttribute attr (js ''  '')) (e_attributes entity) @
     (case identifiedBy entity of
        Some targets \<Rightarrow>
          if entityType entity = Weak then
            [js ''  Identified By '' @
             join (js '' + '')
               (map (\<lambda>fk. fkEntityName fk @ js ''.'' @ fkAttributeName fk) targets)]
          else []
      | None \<Rightarrow> []) @
     [[]]"

definition generateSide :: "relationshipType \<Rightarrow> relationshipSide \<Rightarrow> jsstring" where
  \<comment> \<open>\<^verbatim>\<open>leftPart\<close> and \<^verbatim>\<open>rightPart\<close>\<close>
  "generateSide rty side =
     (if participation side = Total \<and> rty = Normal then
        js ''('' @ cardinalityText (cardinality side) @ js '', total)''
      else if participation side = Partial \<and> rty = Normal then
        js ''('' @ cardinalityText (cardinality side) @ js '', partial)''
      else js ''('' @ cardinalityText (cardinality side) @ js '')'')"

definition generateRelationship :: "relationshipNode \<Rightarrow> jsstring list" where
  \<comment> \<open>the lines one relationship pushes\<close>
  "generateRelationship rel =
     (let leftPart = generateSide (relationshipType rel) (leftSide rel);
          rightPart = generateSide (relationshipType rel) (rightSide rel);
          header = entityName (leftSide rel) @ js '' '' @ leftPart @ js '' '' @ [emdash] @
                   js '' '' @ rightPart @ js '' '' @ entityName (rightSide rel) @ js '': '' @
                   verb rel
      in [if relationshipType rel = Identifying then js ''Identifying Relation '' @ header
          else js ''Relation '' @ header] @
         map (\<lambda>attr. js ''  '' @ a_name attr) (r_attributes rel) @
         [[]])"

definition generateDSL :: "eRDiagramAST \<Rightarrow> jsstring" where
  "generateDSL ast =
     trim (join [10]
       (concat (map generateEntity (entities ast)) @
        concat (map generateRelationship (relationships ast))))"

section \<open>The diagram graph (shared/erd-types.ts)\<close>

datatype diagramNodeType =
    N_entity | N_weakEntity | N_simpleAttribute | N_multivaluedAttribute
  | N_derivedAttribute | N_compositeAttribute | N_relationship | N_identifyingRelationship

text \<open>
  Coordinates are JavaScript numbers. They are modelled as rationals: every value the
  layout computes from integers by addition and halving is exact in both, and only the
  mean of a relationship's neighbours may be rounded by the source.
\<close>

record diagramNode =
  n_id :: jsstring
  n_type :: diagramNodeType
  n_label :: jsstring
  n_name :: "jsstring option"
  n_parentId :: "jsstring option"
  n_isPrimaryKey :: "bool option"
  n_isForeignKey :: "bool option"
  n_fkTarget :: "foreignKeyTarget option"
  n_dataType :: "jsstring option"
  n_identifiedBy :: "foreignKeyTarget list option"
  n_entityType :: "entityType option"
  n_relationshipType :: "relationshipType option"
  n_x :: "rat option"
  n_y :: "rat option"
  n_width :: "rat option"
  n_height :: "rat option"

record diagramEdge =
  d_id :: jsstring
  sourceId :: jsstring
  targetId :: jsstring
  d_label :: "jsstring option"
  sourceCardinality :: "cardinality option"
  targetCardinality :: "cardinality option"
  sourceParticipation :: "participation option"
  targetParticipation :: "participation option"

record diagramModel =
  nodes :: "diagramNode list"
  edges :: "diagramEdge list"

definition isEntityNode :: "diagramNode \<Rightarrow> bool" where
  "isEntityNode n = (n_type n = N_entity \<or> n_type n = N_weakEntity)"

definition isRelationshipNode :: "diagramNode \<Rightarrow> bool" where
  "isRelationshipNode n = (n_type n = N_relationship \<or> n_type n = N_identifyingRelationship)"

definition isAttributeNode :: "diagramNode \<Rightarrow> bool" where
  \<comment> \<open>\<^verbatim>\<open>type.includes('Attribute')\<close>: the four type names that contain the word\<close>
  "isAttributeNode n =
     (n_type n = N_simpleAttribute \<or> n_type n = N_multivaluedAttribute \<or>
      n_type n = N_derivedAttribute \<or> n_type n = N_compositeAttribute)"

text \<open>
  The two tests on an edge that the source writes out wherever it tells the kinds of
  edges apart: \<^verbatim>\<open>!edge.sourceCardinality && !edge.targetCardinality\<close> and
  \<^verbatim>\<open>e.sourceCardinality || e.targetCardinality\<close>. A cardinality is \<^verbatim>\<open>'1'\<close> or
  \<^verbatim>\<open>'M'\<close>, never the empty string, so it is truthy exactly when it is defined.
\<close>

definition isContainmentEdge :: "diagramEdge \<Rightarrow> bool" where
  "isContainmentEdge e = (sourceCardinality e = None \<and> targetCardinality e = None)"

definition isRelationalEdge :: "diagramEdge \<Rightarrow> bool" where
  "isRelationalEdge e = (sourceCardinality e \<noteq> None \<or> targetCardinality e \<noteq> None)"

section \<open>Forward transform (diagram-model.ts)\<close>

text \<open>
  The module's two counters and the two arrays under construction are the state that
  the functions pass along; \<^verbatim>\<open>astToDiagramModel\<close> resets the counters first.
\<close>

record genState =
  nodeIdCounter :: nat
  edgeIdCounter :: nat
  g_nodes :: "diagramNode list"
  g_edges :: "diagramEdge list"

definition nodeIdOf :: "nat \<Rightarrow> jsstring" where
  "nodeIdOf k = js ''node_'' @ showNat k"

definition edgeIdOf :: "nat \<Rightarrow> jsstring" where
  "edgeIdOf k = js ''edge_'' @ showNat k"

definition generateNodeId :: "genState \<Rightarrow> jsstring \<times> genState" where
  "generateNodeId st =
     (nodeIdOf (Suc (nodeIdCounter st)), st\<lparr>nodeIdCounter := Suc (nodeIdCounter st)\<rparr>)"

definition generateEdgeId :: "genState \<Rightarrow> jsstring \<times> genState" where
  "generateEdgeId st =
     (edgeIdOf (Suc (edgeIdCounter st)), st\<lparr>edgeIdCounter := Suc (edgeIdCounter st)\<rparr>)"

definition pushNode :: "diagramNode \<Rightarrow> genState \<Rightarrow> genState" where
  "pushNode n st = st\<lparr>g_nodes := g_nodes st @ [n]\<rparr>"

definition pushEdge :: "diagramEdge \<Rightarrow> genState \<Rightarrow> genState" where
  "pushEdge e st = st\<lparr>g_edges := g_edges st @ [e]\<rparr>"

definition emptyNode :: "jsstring \<Rightarrow> diagramNodeType \<Rightarrow> jsstring \<Rightarrow> diagramNode" where
  \<comment> \<open>an object literal with the three required fields only\<close>
  "emptyNode i ty l =
     \<lparr>n_id = i, n_type = ty, n_label = l, n_name = None, n_parentId = None,
      n_isPrimaryKey = None, n_isForeignKey = None, n_fkTarget = None, n_dataType = None,
      n_identifiedBy = None, n_entityType = None, n_relationshipType = None,
      n_x = None, n_y = None, n_width = None, n_height = None\<rparr>"

definition emptyEdge :: "jsstring \<Rightarrow> jsstring \<Rightarrow> jsstring \<Rightarrow> diagramEdge" where
  "emptyEdge i s t =
     \<lparr>d_id = i, sourceId = s, targetId = t, d_label = None, sourceCardinality = None,
      targetCardinality = None, sourceParticipation = None, targetParticipation = None\<rparr>"

definition attributeNodeType :: "attributeType \<Rightarrow> diagramNodeType" where
  "attributeNodeType aty =
     (if aty = Composite then N_compositeAttribute
      else if aty = Multivalued then N_multivaluedAttribute
      else if aty = Derived then N_derivedAttribute
      else N_simpleAttribute)"

definition attrNodeOf :: "jsstring \<Rightarrow> jsstring \<Rightarrow> attributeNode \<Rightarrow> diagramNode" where
  \<comment> \<open>the object \<^verbatim>\<open>attrNode\<close>\<close>
  "attrNodeOf attrNodeId parentId attr =
     (emptyNode attrNodeId (attributeNodeType (attributeType attr)) (a_name attr))
       \<lparr>n_parentId := Some parentId, n_isPrimaryKey := Some (keyType attr = Pk),
        n_isForeignKey := Some (keyType attr = Fk), n_fkTarget := fkTarget attr,
        n_dataType := dataType attr\<rparr>"

fun processAttribute :: "attributeNode \<Rightarrow> jsstring \<Rightarrow> genState \<Rightarrow> genState" where
  "processAttribute (AttributeNode n aty kty fk dty subs) parentId st =
     (case generateNodeId st of (attrNodeId, st1) \<Rightarrow>
      let st2 = pushNode (attrNodeOf attrNodeId parentId (AttributeNode n aty kty fk dty subs)) st1
      in case generateEdgeId st2 of (edgeId, st3) \<Rightarrow>
      let st4 = pushEdge (emptyEdge edgeId parentId attrNodeId) st3
      in if aty = Composite \<and> subs \<noteq> None then
           fold (\<lambda>subAttr s. processAttribute subAttr attrNodeId s) (the subs) st4
         else st4)"

text \<open>
  The body of the loop over the entities; \<open>entityNodeMap\<close> is the \<^verbatim>\<open>Map\<close> from
  an entity's name to the id of its node, a later entity of the same name replacing
  an earlier one.
\<close>

definition entityNodeOf :: "jsstring \<Rightarrow> entityNode \<Rightarrow> diagramNode" where
  \<comment> \<open>the object \<^verbatim>\<open>entityNode\<close>\<close>
  "entityNodeOf entityNodeId entity =
     (emptyNode entityNodeId (if entityType entity = Weak then N_weakEntity else N_entity)
        (e_name entity))
       \<lparr>n_name := Some (e_name entity), n_entityType := Some (entityType entity),
        n_identifiedBy := identifiedBy entity\<rparr>"

definition processEntity ::
  "entityNode \<Rightarrow> (jsstring \<rightharpoonup> jsstring) \<times> genState \<Rightarrow> (jsstring \<rightharpoonup> jsstring) \<times> genState" where
  "processEntity entity acc =
     (case acc of (entityNodeMap, st) \<Rightarrow>
      case generateNodeId st of (entityNodeId, st1) \<Rightarrow>
      let st2 = pushNode (entityNodeOf entityNodeId entity) st1
      in (entityNodeMap(e_name entity \<mapsto> entityNodeId),
          fold (\<lambda>attr s. processAttribute attr entityNodeId s) (e_attributes entity) st2))"

text \<open>
  The two edges of a relationship. \<^verbatim>\<open>if (leftEntityId)\<close> holds of a defined,
  non-empty string; \<open>pushSideEdge\<close> is the guarded \<^verbatim>\<open>edges.push\<close> that the source
  writes once for each side.
\<close>

definition relNodeOf :: "jsstring \<Rightarrow> relationshipNode \<Rightarrow> diagramNode" where
  \<comment> \<open>the object \<^verbatim>\<open>relNode\<close>\<close>
  "relNodeOf relNodeId rel =
     (emptyNode relNodeId
        (if relationshipType rel = Identifying then N_identifyingRelationship
         else N_relationship)
        (verb rel))
       \<lparr>n_name := Some (r_name rel), n_relationshipType := Some (relationshipType rel)\<rparr>"

definition leftEdge ::
  "jsstring \<Rightarrow> relationshipSide \<Rightarrow> jsstring \<Rightarrow> jsstring \<Rightarrow> diagramEdge" where
  "leftEdge relNodeId side edgeId leftEntityId =
     (emptyEdge edgeId leftEntityId relNodeId)
       \<lparr>sourceCardinality := Some (cardinality side),
        sourceParticipation := Some (participation side)\<rparr>"

definition rightEdge ::
  "jsstring \<Rightarrow> relationshipSide \<Rightarrow> jsstring \<Rightarrow> jsstring \<Rightarrow> diagramEdge" where
  "rightEdge relNodeId side edgeId rightEntityId =
     (emptyEdge edgeId relNodeId rightEntityId)
       \<lparr>targetCardinality := Some (cardinality side),
        targetParticipation := Some (participation side)\<rparr>"

definition pushSideEdge ::
  "jsstring option \<Rightarrow> (jsstring \<Rightarrow> jsstring \<Rightarrow> diagramEdge) \<Rightarrow> genState \<Rightarrow> genState" where
  "pushSideEdge entityId mkEdge st =
     (case entityId of
        Some i \<Rightarrow>
          if truthy i then
            (case generateEdgeId st of (edgeId, st') \<Rightarrow> pushEdge (mkEdge edgeId i) st')
          else st
      | None \<Rightarrow> st)"

definition processRelationship ::
  "(jsstring \<rightharpoonup> jsstring) \<Rightarrow> relationshipNode \<Rightarrow> genState \<Rightarrow> genState" where
  "processRelationship entityNodeMap rel st =
     (case generateNodeId st of (relNodeId, st1) \<Rightarrow>
      let st2 = pushNode (relNodeOf relNodeId rel) st1;
          st3 = pushSideEdge (entityNodeMap (entityName (leftSide rel)))
                  (leftEdge relNodeId (leftSide rel)) st2;
          st4 = pushSideEdge (entityNodeMap (entityName (rightSide rel)))
                  (rightEdge relNodeId (rightSide rel)) st3
      in fold (\<lambda>attr s. processAttribute attr relNodeId s) (r_attributes rel) st4)"

definition initialState :: genState where
  \<comment> \<open>after \<^verbatim>\<open>resetIdCounters()\<close>, with the two arrays empty\<close>
  "initialState = \<lparr>nodeIdCounter = 0, edgeIdCounter = 0, g_nodes = [], g_edges = []\<rparr>"

definition astToDiagramModel :: "eRDiagramAST \<Rightarrow> diagramModel" where
  "astToDiagramModel ast =
     (let (entityNodeMap, st1) = fold processEntity (entities ast) (Map.empty, initialState);
          st2 = fold (processRelationship entityNodeMap) (relationships ast) st1
      in \<lparr>nodes = g_nodes st2, edges = g_edges st2\<rparr>)"

section \<open>Reverse transform (diagram-model.ts)\<close>

definition buildNodeMap :: "diagramNode list \<Rightarrow> (jsstring \<rightharpoonup> diagramNode)" where
  "buildNodeMap ns = fold (\<lambda>node nodeMap. nodeMap(n_id node \<mapsto> node)) ns Map.empty"

text \<open>
  \<open>childrenMap\<close>: a key that was never set reads as the empty array
  (\<^verbatim>\<open>childrenMap.get(id) || []\<close>), so the map is a total function to lists.
\<close>

definition childStep ::
  "(jsstring \<rightharpoonup> diagramNode) \<Rightarrow> diagramEdge \<Rightarrow> (jsstring \<Rightarrow> diagramNode list) \<Rightarrow>
   (jsstring \<Rightarrow> diagramNode list)" where
  \<comment> \<open>the body of the loop over the edges\<close>
  "childStep nodeMap edge childrenMap =
     (if isContainmentEdge edge then
        (case nodeMap (targetId edge) of
           Some childNode \<Rightarrow>
             childrenMap(sourceId edge := childrenMap (sourceId edge) @ [childNode])
         | None \<Rightarrow> childrenMap)
      else childrenMap)"

definition buildChildrenMap ::
  "(jsstring \<rightharpoonup> diagramNode) \<Rightarrow> diagramEdge list \<Rightarrow> (jsstring \<Rightarrow> diagramNode list)" where
  "buildChildrenMap nodeMap es = fold (childStep nodeMap) es (\<lambda>_. [])"

definition attributeOfNode :: "diagramNode \<Rightarrow> attributeNode list option \<Rightarrow> attributeNode" where
  \<comment> \<open>the object \<^verbatim>\<open>attr\<close> of \<^verbatim>\<open>getAttributesForNode\<close>, with its sub-attributes\<close>
  "attributeOfNode child subs =
     AttributeNode (n_label child)
       (if n_type child = N_compositeAttribute then Composite
        else if n_type child = N_multivaluedAttribute then Multivalued
        else if n_type child = N_derivedAttribute then Derived else Simple)
       (if n_isPrimaryKey child = Some True then Pk
        else if n_isForeignKey child = Some True then Fk else NoKey)
       (n_fkTarget child) (n_dataType child) subs"

text \<open>
  \<^verbatim>\<open>getAttributesForNode\<close> follows the containment edges below composite attributes.
  On a graph whose containment edges run in a cycle through composite attributes the
  source recurses without end; the first argument bounds the depth of the recursion,
  and \<open>None\<close> says that the bound was reached.
\<close>

fun getAttributesForNode ::
  "nat \<Rightarrow> jsstring \<Rightarrow> (jsstring \<Rightarrow> diagramNode list) \<Rightarrow> attributeNode list option" where
  "getAttributesForNode 0 nodeId childrenMap = None"
| "getAttributesForNode (Suc fuel) nodeId childrenMap =
     those (map (\<lambda>child.
                   if n_type child = N_compositeAttribute then
                     (case getAttributesForNode fuel (n_id child) childrenMap of
                        None \<Rightarrow> None
                      | Some subs \<Rightarrow> Some (attributeOfNode child (Some subs)))
                   else Some (attributeOfNode child None))
            (filter isAttributeNode (childrenMap nodeId)))"

definition entityOfNode :: "diagramNode \<Rightarrow> attributeNode list \<Rightarrow> entityNode" where
  "entityOfNode node attributes =
     \<lparr>e_name = n_label node,
      entityType = (case n_entityType node of Some t \<Rightarrow> t
                    | None \<Rightarrow> if n_type node = N_weakEntity then Weak else Strong),
      e_attributes = attributes,
      identifiedBy = n_identifiedBy node\<rparr>"

definition relEdges :: "diagramModel \<Rightarrow> diagramNode \<Rightarrow> diagramEdge list" where
  "relEdges model node =
     filter (\<lambda>e. (sourceId e = n_id node \<or> targetId e = n_id node) \<and> isRelationalEdge e)
       (edges model)"

definition defaultLeftSide :: relationshipSide where
  "defaultLeftSide = \<lparr>entityName = [], cardinality = One, participation = Partial\<rparr>"

definition defaultRightSide :: relationshipSide where
  "defaultRightSide = \<lparr>entityName = [], cardinality = Many, participation = Partial\<rparr>"

definition sideStep ::
  "(jsstring \<rightharpoonup> diagramNode) \<Rightarrow> diagramNode \<Rightarrow> diagramEdge \<Rightarrow>
   relationshipSide \<times> relationshipSide \<Rightarrow> relationshipSide \<times> relationshipSide" where
  \<comment> \<open>the body of \<^verbatim>\<open>for (const edge of relEdges)\<close>\<close>
  "sideStep nodeMap node edge sides =
     (case sides of (left, right) \<Rightarrow>
      if sourceId edge \<noteq> n_id node then
        (case nodeMap (sourceId edge) of
           Some entityNode \<Rightarrow>
             (\<lparr>entityName = n_label entityNode,
               cardinality = (case sourceCardinality edge of Some c \<Rightarrow> c | None \<Rightarrow> One),
               participation =
                 (case sourceParticipation edge of Some p \<Rightarrow> p | None \<Rightarrow> Partial)\<rparr>,
              right)
         | None \<Rightarrow> (left, right))
      else if targetId edge \<noteq> n_id node then
        (case nodeMap (targetId edge) of
           Some entityNode \<Rightarrow>
             (left,
              \<lparr>entityName = n_label entityNode,
               cardinality = (case targetCardinality edge of Some c \<Rightarrow> c | None \<Rightarrow> Many),
               participation =
                 (case targetParticipation edge of Some p \<Rightarrow> p | None \<Rightarrow> Partial)\<rparr>)
         | None \<Rightarrow> (left, right))
      else (left, right))"

definition relationshipSides ::
  "diagramModel \<Rightarrow> diagramNode \<Rightarrow> relationshipSide \<times> relationshipSide" where
  "relationshipSides model node =
     fold (sideStep (buildNodeMap (nodes model)) node) (relEdges model node)
       (defaultLeftSide, defaultRightSide)"

definition relationshipOfNode ::
  "diagramModel \<Rightarrow> diagramNode \<Rightarrow> attributeNode list \<Rightarrow> relationshipNode" where
  "relationshipOfNode model node attributes =
     \<lparr>r_name = (case n_name node of Some nm \<Rightarrow> if truthy nm then nm else n_label node
                | None \<Rightarrow> n_label node),
      relationshipType =
        (case n_relationshipType node of Some t \<Rightarrow> t
         | None \<Rightarrow> if n_type node = N_identifyingRelationship then Identifying else Normal),
      leftSide = fst (relationshipSides model node),
      rightSide = snd (relationshipSides model node),
      verb = n_label node,
      r_attributes = attributes\<rparr>"

definition diagramModelToAST :: "nat \<Rightarrow> diagramModel \<Rightarrow> eRDiagramAST option" where
  "diagramModelToAST fuel model =
     (let nodeMap = buildNodeMap (nodes model);
          childrenMap = buildChildrenMap nodeMap (edges model)
      in case those (map (\<lambda>node.
                 map_option (entityOfNode node)
                   (getAttributesForNode fuel (n_id node) childrenMap))
               (filter isEntityNode (nodes model))) of
           None \<Rightarrow> None
         | Some ents \<Rightarrow>
             (case those (map (\<lambda>node.
                      map_option (relationshipOfNode model node)
                        (getAttributesForNode fuel (n_id node) childrenMap))
                    (filter isRelationshipNode (nodes model))) of
                None \<Rightarrow> None
              | Some rels \<Rightarrow> Some \<lparr>entities = ents, relationships = rels\<rparr>))"

section \<open>Numbers\<close>

text \<open>
  A JavaScript number is an IEEE 754 double. The layout adds, subtracts, multiplies
  and divides numbers, and each of these operations yields the exact result rounded
  to the nearest double, ties to the even significand. A number is modelled as the
  rational it denotes and the rounding is written out: \<open>exponentOf q\<close> is the
  integer \<open>e\<close> with \<open>2^e \<le> q < 2^(e+1)\<close>, the doubles near \<open>q\<close> are the
  multiples of \<open>2^(e-52)\<close> (of \<open>2^-1074\<close> for the subnormal ones), and
  \<open>roundDouble q\<close> is the nearest of them. Results of magnitude \<open>2^1024\<close> and more
  are infinite in JavaScript; the layout, whose numbers are built from array lengths
  and a few small constants, never reaches them. Signed zeros are not told apart.
\<close>

definition pow2 :: "int \<Rightarrow> rat" where
  "pow2 e = (if 0 \<le> e then 2 ^ nat e else 1 / 2 ^ nat (- e))"

definition exponentOf :: "rat \<Rightarrow> int" where
  "exponentOf q =
     (if 1 \<le> q then int (floorlog 2 (nat \<lfloor>q\<rfloor>)) - 1
      else - int (floorlog 2 (nat (\<lceil>1 / q\<rceil> - 1))))"

definition roundDouble :: "rat \<Rightarrow> rat" where
  "roundDouble q =
     (if q = 0 then 0
      else
        let u = pow2 (max (exponentOf \<bar>q\<bar> - 52) (- 1074));
            m = \<bar>q\<bar> / u;
            f = \<lfloor>m\<rfloor>;
            n = (if m - of_int f < 1 / 2 then f
                 else if 1 / 2 < m - of_int f then f + 1
                 else if even f then f else f + 1)
        in sgn q * of_int n * u)"

text \<open>The four operations of the source on numbers.\<close>

definition numAdd :: "rat \<Rightarrow> rat \<Rightarrow> rat" where
  "numAdd a b = roundDouble (a + b)"

definition numSub :: "rat \<Rightarrow> rat \<Rightarrow> rat" where
  "numSub a b = roundDouble (a - b)"

definition numMul :: "rat \<Rightarrow> rat \<Rightarrow> rat" where
  "numMul a b = roundDouble (a * b)"

definition numDiv :: "rat \<Rightarrow> rat \<Rightarrow> rat" where
  \<comment> \<open>the divisor is never zero where the layout divides\<close>
  "numDiv a b = roundDouble (a / b)"

section \<open>Layout (mxgraph-editor.ts)\<close>

definition HORIZONTAL_SPACING :: rat where "HORIZONTAL_SPACING = 200"
definition VERTICAL_SPACING :: rat where "VERTICAL_SPACING = 100"
definition ATTRIBUTE_SPACING :: rat where "ATTRIBUTE_SPACING = 50"

type_synonym positions = "jsstring \<rightharpoonup> rat \<times> rat"

definition buildParentMap :: "diagramEdge list \<Rightarrow> (jsstring \<rightharpoonup> jsstring)" where
  "buildParentMap es =
     fold (\<lambda>edge parentMap.
             if isContainmentEdge edge then parentMap(targetId edge \<mapsto> sourceId edge)
             else parentMap)
       es Map.empty"

text \<open>The loop over the entities: the state is the map and \<^verbatim>\<open>entityX\<close>.\<close>

definition placeEntity :: "diagramNode \<Rightarrow> positions \<times> rat \<Rightarrow> positions \<times> rat" where
  "placeEntity entity acc =
     (case acc of (pos, entityX) \<Rightarrow>
        (pos(n_id entity \<mapsto> (entityX, 250)), numAdd entityX HORIZONTAL_SPACING))"

text \<open>
  The loop over the relationships. \<^verbatim>\<open>count\<close> counts edges of an array, so it stays
  an integer that a double holds exactly.
\<close>

definition placeRelationship ::
  "diagramEdge list \<Rightarrow> diagramNode \<Rightarrow> positions \<Rightarrow> positions" where
  "placeRelationship es rel pos =
     (let connectedEdges =
            filter (\<lambda>e. (sourceId e = n_id rel \<or> targetId e = n_id rel) \<and> isRelationalEdge e) es;
          (avgX, count) =
            fold (\<lambda>edge (avgX, count).
                    let otherId = (if sourceId edge = n_id rel then targetId edge
                                   else sourceId edge)
                    in case pos otherId of
                         Some otherPos \<Rightarrow> (numAdd avgX (fst otherPos), count + 1)
                       | None \<Rightarrow> (avgX, count))
              connectedEdges (0, 0 :: nat);
          x = (if count > 0 then numDiv avgX (of_nat count) else 400)
      in pos(n_id rel \<mapsto> (x, numAdd (numAdd 250 VERTICAL_SPACING) 50)))"

text \<open>
  \<open>attributeGroups\<close> is a \<^verbatim>\<open>Map\<close> that the source iterates, so the order of its
  keys matters: a list of pairs in the order of first insertion. \<^verbatim>\<open>if (parentId)\<close>
  holds of a defined, non-empty string.
\<close>

definition groupAdd ::
  "jsstring \<Rightarrow> diagramNode \<Rightarrow> (jsstring \<times> diagramNode list) list \<Rightarrow>
   (jsstring \<times> diagramNode list) list" where
  "groupAdd parentId attr groups =
     (if parentId \<in> fst ` set groups then
        map (\<lambda>(k, group). if k = parentId then (k, group @ [attr]) else (k, group)) groups
      else groups @ [(parentId, [attr])])"

definition buildAttributeGroups ::
  "(jsstring \<rightharpoonup> jsstring) \<Rightarrow> diagramNode list \<Rightarrow> (jsstring \<times> diagramNode list) list" where
  "buildAttributeGroups parentMap attributes =
     fold (\<lambda>attr groups.
             case parentMap (n_id attr) of
               Some parentId \<Rightarrow> if truthy parentId then groupAdd parentId attr groups else groups
             | None \<Rightarrow> groups)
       attributes []"

definition placeSubAttributes ::
  "rat \<Rightarrow> rat \<Rightarrow> diagramNode list \<Rightarrow> positions \<Rightarrow> positions" where
  \<comment> \<open>\<^verbatim>\<open>subAttrs.forEach((subAttr, subIndex) => ...)\<close>\<close>
  "placeSubAttributes subStartX baseY subAttrs pos =
     fold (\<lambda>(subAttr, subIndex) p.
             p(n_id subAttr \<mapsto>
                 (numAdd subStartX (numMul (of_nat subIndex) 40), numSub baseY 60)))
       (zip subAttrs [0..<length subAttrs]) pos"

definition placeAttribute ::
  "(jsstring \<rightharpoonup> jsstring) \<Rightarrow> diagramNode list \<Rightarrow> rat \<Rightarrow> rat \<Rightarrow>
   diagramNode \<times> nat \<Rightarrow> positions \<Rightarrow> positions" where
  \<comment> \<open>the callback of \<^verbatim>\<open>attrs.forEach((attr, index) => ...)\<close>\<close>
  "placeAttribute parentMap attributes startX baseY ai pos =
     (case ai of (attr, index) \<Rightarrow>
      let subAttrs = filter (\<lambda>a. parentMap (n_id a) = Some (n_id attr)) attributes;
          pos1 = pos(n_id attr \<mapsto>
                       (numAdd startX (numMul (of_nat index) ATTRIBUTE_SPACING), baseY))
      in if length subAttrs > 0 then
           placeSubAttributes
             (numSub (numAdd startX (numMul (of_nat index) ATTRIBUTE_SPACING))
                (numDiv (numMul (numSub (of_nat (length subAttrs)) 1) 40) 2))
             baseY subAttrs pos1
         else pos1)"

definition placeGroup ::
  "diagramNode list \<Rightarrow> (jsstring \<rightharpoonup> jsstring) \<Rightarrow> diagramNode list \<Rightarrow>
   jsstring \<times> diagramNode list \<Rightarrow> positions \<Rightarrow> positions" where
  \<comment> \<open>the body of \<^verbatim>\<open>for (const [parentId, attrs] of attributeGroups)\<close>\<close>
  "placeGroup ents parentMap attributes g pos =
     (case g of (parentId, attrs) \<Rightarrow>
      case pos parentId of
        None \<Rightarrow> pos
      | Some parentPos \<Rightarrow>
          let isEntity = (\<exists>e \<in> set ents. n_id e = parentId);
              baseY = (if isEntity then numSub (snd parentPos) VERTICAL_SPACING
                       else numAdd (snd parentPos) VERTICAL_SPACING);
              startX = numSub (fst parentPos)
                         (numDiv (numMul (numSub (of_nat (length attrs)) 1) ATTRIBUTE_SPACING) 2)
          in fold (placeAttribute parentMap attributes startX baseY)
               (zip attrs [0..<length attrs]) pos)"

definition calculateLayout ::
  "diagramNode list \<Rightarrow> diagramNode list \<Rightarrow> diagramNode list \<Rightarrow> diagramEdge list \<Rightarrow>
   positions" where
  "calculateLayout ents rels attributes es =
     (let parentMap = buildParentMap es;
          pos1 = fst (fold placeEntity ents (Map.empty, 100));
          pos2 = fold (placeRelationship es) rels pos1;
          attributeGroups = buildAttributeGroups parentMap attributes
      in fold (placeGroup ents parentMap attributes) attributeGroups pos2)"

text \<open>
  \<^verbatim>\<open>renderDiagram\<close> splits the nodes of the model by type and lays them out.
\<close>

definition entityNodes :: "diagramModel \<Rightarrow> diagramNode list" where
  "entityNodes model = filter isEntityNode (nodes model)"

definition relationshipNodes :: "diagramModel \<Rightarrow> diagramNode list" where
  "relationshipNodes model = filter isRelationshipNode (nodes model)"

definition attributeNodes :: "diagramModel \<Rightarrow> diagramNode list" where
  "attributeNodes model = filter isAttributeNode (nodes model)"

definition nodePositions :: "diagramModel \<Rightarrow> positions" where
  "nodePositions model =
     calculateLayout (entityNodes model) (relationshipNodes model) (attributeNodes model)
       (edges model)"



section \<open>Example inputs\<close>

text \<open>Concrete documents and graphs at which the theorems below are instantiated.\<close>

definition writesDoc :: jsstring where
  "writesDoc = js ''Identifying Relation Author (M) -- (M) Book: writes''"

definition writesRel :: relationshipNode where
  "writesRel =
     \<lparr>r_name = js ''writes'', relationshipType = Identifying,
      leftSide = \<lparr>entityName = js ''Author'', cardinality = Many, participation = Total\<rparr>,
      rightSide = \<lparr>entityName = js ''Book'', cardinality = Many, participation = Total\<rparr>,
      verb = js ''writes'', r_attributes = []\<rparr>"

definition weakDoc :: jsstring where
  "weakDoc = js ''Weak Entity OrderItem: quantity price''"

text \<open>
  The coherence of the fields of an attribute (claim C10), for the attribute and all
  attributes nested in it.
\<close>

fun coherent :: "attributeNode \<Rightarrow> bool" where
  "coherent (AttributeNode n aty kty fk dty subs) =
     ((subs \<noteq> None \<longleftrightarrow> aty = Composite) \<and>
      (dty \<noteq> None \<longrightarrow> aty = Typed) \<and>
      (fk \<noteq> None \<longrightarrow> kty = Fk) \<and>
      (kty \<noteq> NoKey \<longrightarrow> aty = Simple) \<and>
      (case subs of None \<Rightarrow> True | Some ss \<Rightarrow> \<forall>s \<in> set ss. coherent s))"

definition storeDoc :: jsstring where
  "storeDoc = js ''Entity S: id PK addr Composite: street owner FK -> P.id cnt: int''"

definition storeAst :: eRDiagramAST where
  "storeAst =
     \<lparr>entities =
        [\<lparr>e_name = js ''S'', entityType = Strong,
          e_attributes =
            [AttributeNode (js ''id'') Simple Pk None None None,
             AttributeNode (js ''addr'') Composite NoKey None None
               (Some [AttributeNode (js ''street'') Simple NoKey None None None]),
             AttributeNode (js ''owner'') Simple Fk
               (Some \<lparr>fkEntityName = js ''P'', fkAttributeName = js ''id''\<rparr>) None None,
             AttributeNode (js ''cnt'') Typed NoKey None (Some (js ''int'')) None],
          identifiedBy = None\<rparr>],
      relationships = []\<rparr>"


definition compositeDoc :: jsstring where
  "compositeDoc = js ''Entity A: addr Composite: street zip PK''"

definition compositeTokens :: "token list" where
  "compositeTokens =
     [mkToken ENTITY (js ''Entity'') 1 1, mkToken IDENTIFIER (js ''A'') 1 8,
      mkToken COLON (js '':'') 1 9, mkToken IDENTIFIER (js ''addr'') 1 11,
      mkToken COMPOSITE (js ''Composite'') 1 16, mkToken COLON (js '':'') 1 25,
      mkToken IDENTIFIER (js ''street'') 1 27, mkToken IDENTIFIER (js ''zip'') 1 34,
      mkToken PK (js ''PK'') 1 38, mkToken EOF [] 1 40]"

definition cardDoc :: jsstring where
  "cardDoc = js ''Relation A'' @ [10] @ js ''  (2) -- (M) B: r''"

definition fkDoc :: jsstring where
  "fkDoc = js ''Entity A: x FK''"

definition fkAst :: "keyType \<Rightarrow> eRDiagramAST" where
  "fkAst k =
     \<lparr>entities = [\<lparr>e_name = js ''A'', entityType = Strong,
                    e_attributes = [AttributeNode (js ''x'') Simple k None None None],
                    identifiedBy = None\<rparr>],
      relationships = []\<rparr>"

text \<open>
  For the reverse transform: an edge without cardinality stripped of its participation
  fields; the conditions under which the loop over \<open>relEdges\<close> replaces the left and
  the right side of a relationship, and the sides it then writes.
\<close>

definition clearParticipation :: "diagramEdge \<Rightarrow> diagramEdge" where
  "clearParticipation e =
     (if isContainmentEdge e then e\<lparr>sourceParticipation := None, targetParticipation := None\<rparr>
      else e)"

definition suppliesLeft :: "(jsstring \<rightharpoonup> diagramNode) \<Rightarrow> diagramNode \<Rightarrow> diagramEdge \<Rightarrow> bool" where
  "suppliesLeft nodeMap node e = (sourceId e \<noteq> n_id node \<and> nodeMap (sourceId e) \<noteq> None)"

definition suppliesRight :: "(jsstring \<rightharpoonup> diagramNode) \<Rightarrow> diagramNode \<Rightarrow> diagramEdge \<Rightarrow> bool" where
  "suppliesRight nodeMap node e =
     (sourceId e = n_id node \<and> targetId e \<noteq> n_id node \<and> nodeMap (targetId e) \<noteq> None)"

definition leftSideOf :: "(jsstring \<rightharpoonup> diagramNode) \<Rightarrow> diagramEdge \<Rightarrow> relationshipSide" where
  "leftSideOf nodeMap e =
     \<lparr>entityName = n_label (the (nodeMap (sourceId e))),
      cardinality = (case sourceCardinality e of Some c \<Rightarrow> c | None \<Rightarrow> One),
      participation = (case sourceParticipation e of Some p \<Rightarrow> p | None \<Rightarrow> Partial)\<rparr>"

definition rightSideOf :: "(jsstring \<rightharpoonup> diagramNode) \<Rightarrow> diagramEdge \<Rightarrow> relationshipSide" where
  "rightSideOf nodeMap e =
     \<lparr>entityName = n_label (the (nodeMap (targetId e))),
      cardinality = (case targetCardinality e of Some c \<Rightarrow> c | None \<Rightarrow> Many),
      participation = (case targetParticipation e of Some p \<Rightarrow> p | None \<Rightarrow> Partial)\<rparr>"

definition participationModel :: diagramModel where
  "participationModel =
     \<lparr>nodes = [emptyNode (js ''n1'') N_entity (js ''Customer''),
               emptyNode (js ''n2'') N_relationship (js ''places''),
               emptyNode (js ''n3'') N_simpleAttribute (js ''email'')],
      edges = [(emptyEdge (js ''e1'') (js ''n1'') (js ''n2''))\<lparr>sourceParticipation := Some Total\<rparr>,
               (emptyEdge (js ''e2'') (js ''n1'') (js ''n3''))\<lparr>sourceParticipation := Some Total\<rparr>]\<rparr>"

definition loneRelationshipModel :: diagramModel where
  "loneRelationshipModel =
     \<lparr>nodes = [emptyNode (js ''n1'') N_relationship (js ''places'')], edges = []\<rparr>"

definition sidesModel :: diagramModel where
  "sidesModel =
     \<lparr>nodes = [emptyNode (js ''n1'') N_entity (js ''Customer''),
               emptyNode (js ''n2'') N_relationship (js ''places''),
               emptyNode (js ''n3'') N_compositeAttribute (js ''when''),
               emptyNode (js ''n4'') N_simpleAttribute (js ''day'')],
      edges = [(emptyEdge (js ''e1'') (js ''n1'') (js ''n2''))\<lparr>targetCardinality := Some Many\<rparr>,
               emptyEdge (js ''e2'') (js ''n2'') (js ''n3''),
               emptyEdge (js ''e3'') (js ''n3'') (js ''n4'')]\<rparr>"

definition sidesRank :: "jsstring \<Rightarrow> nat" where
  "sidesRank k = (if k = js ''n2'' then 2 else if k = js ''n3'' then 1 else 0)"

definition sidesAst :: eRDiagramAST where
  "sidesAst =
     \<lparr>entities = [\<lparr>e_name = js ''Customer'', entityType = Strong, e_attributes = [],
                    identifiedBy = None\<rparr>],
      relationships =
        [\<lparr>r_name = js ''places'', relationshipType = Normal,
          leftSide = \<lparr>entityName = js ''Customer'', cardinality = One, participation = Partial\<rparr>,
          rightSide = \<lparr>entityName = [], cardinality = Many, participation = Partial\<rparr>,
          verb = js ''places'',
          r_attributes = [AttributeNode (js ''when'') Composite NoKey None None
                            (Some [simpleAttribute (js ''day'')])]\<rparr>]\<rparr>"



text \<open>Two entity nodes with one identifier, as a JSON import can bring them.\<close>

definition twinModel :: diagramModel where
  "twinModel =
     \<lparr>nodes = [emptyNode (js ''n1'') N_entity (js ''Store''),
               emptyNode (js ''n1'') N_entity (js ''Shelf'')],
      edges = []\<rparr>"

text \<open>
  A relationship with three relational edges, to entities at \<open>x = 100\<close>, \<open>300\<close> and
  \<open>300\<close>: the mean \<open>700 / 3\<close> is no double.
\<close>

definition meanModel :: diagramModel where
  "meanModel =
     \<lparr>nodes = [emptyNode (js ''n1'') N_entity (js ''A''),
               emptyNode (js ''n2'') N_entity (js ''B''),
               emptyNode (js ''n3'') N_relationship (js ''r'')],
      edges = [(emptyEdge (js ''e1'') (js ''n1'') (js ''n3''))\<lparr>sourceCardinality := Some One\<rparr>,
               (emptyEdge (js ''e2'') (js ''n3'') (js ''n2''))\<lparr>targetCardinality := Some Many\<rparr>,
               (emptyEdge (js ''e3'') (js ''n2'') (js ''n3''))\<lparr>sourceCardinality := Some One\<rparr>]\<rparr>"

(*DEFS_END*)

section \<open>Evaluation\<close>

text \<open>
  The equations that the simplifier unfolds to run the tokenizer and the parser on a
  concrete input.
\<close>

lemmas tokenize_eval = tokenize_def tokenizeFrom.simps js_def ch_def emdash_def mkToken_def
  readIdentifier_def readNumber_def isLetter_def isDigit_def isIdentChar_def keywordType_def
  keywordTable_def inheritedNames_def

lemmas parse_eval = parse.simps parseEntity_def parseWeakEntity_def parseRelation_def
  parseIdentifyingRelation_def parseAttributeList.simps parseAttribute_def
  parseSubAttributeList.simps parseRelationAttributeList.simps parseFkTarget_def
  parseIdentifiedByList_def identifiedByLoop.simps parseCardinality_def parseParticipation_def
  parseOptionalParticipation_def expect_def check_def isAtEnd_def current_def advance_def
  peek_def nextIsMarker_def isEntityOrRelationStart_def simpleAttribute_def expectMessage_def

subsection \<open>Inherited words\<close>

text \<open>
  Words that name a member of \<^verbatim>\<open>Object.prototype\<close> are no identifiers. As the name
  of an attribute such a word is skipped, so that the attribute is dropped; where the
  grammar wants an identifier, parsing fails, and the message shows the text of the
  inherited function.
\<close>

lemma inherited_word_token:
  "tokenize (js ''toString'') =
     [mkToken (INHERITED (js ''toString'')) (js ''toString'') 1 1, mkToken EOF [] 1 9]"
  by (simp add: tokenize_eval Let_def)

lemma inherited_word_dropped:
  "parseDSL (js ''Entity A: id valueOf name'') =
     Inr \<lparr>entities =
            [\<lparr>e_name = js ''A'', entityType = Strong,
              e_attributes = [simpleAttribute (js ''id''), simpleAttribute (js ''name'')],
              identifiedBy = None\<rparr>],
          relationships = []\<rparr>"
  by (simp add: parseDSL_def tokenize_eval parse_eval Let_def)

lemma inherited_word_rejected:
  "parseDSL (js ''Entity constructor: id'') =
     Inl (Error (js ''Expected IDENTIFIER but got function Object() { [native code] } at line 1, column 8''))"
  by (simp add: parseDSL_def tokenize_eval parse_eval Let_def showNat.simps [of "Suc n" for n])

section \<open>Properties of the parser\<close>

lemma expect_Inr:
  "expect ty ts = Inr (t, ts') \<Longrightarrow> ts = t # ts' \<and> ttype t = ty"
  by (cases ts) (auto simp: expect_def check_def isAtEnd_def current_def advance_def
        mkToken_def split: if_splits)

lemma parseCardinality_Inr:
  "parseCardinality ts = Inr (c, ts') \<Longrightarrow>
     \<exists>t. ts = t # ts' \<and> (ttype t = ONE \<or> ttype t = M)"
  by (cases ts) (auto simp: parseCardinality_def check_def isAtEnd_def current_def advance_def
        mkToken_def split: if_splits)

lemma parseRelation_Normal:
  "parseRelation ts = Inr (r, ts') \<Longrightarrow> relationshipType r = Normal"
  unfolding parseRelation_def by (auto simp: bindE_Inr_iff)

lemma parseIdentifyingRelation_Total:
  "parseIdentifyingRelation ts = Inr (r, ts') \<Longrightarrow>
     relationshipType r = Identifying \<and> participation (leftSide r) = Total \<and>
     participation (rightSide r) = Total \<and> r_attributes r = []"
  unfolding parseIdentifyingRelation_def by (auto simp: bindE_Inr_iff)

lemma parseIdentifyingRelation_shape:
  assumes "parseIdentifyingRelation ts = Inr (r, ts')"
  shows "\<exists>c1 c2. map ttype (take 13 ts) =
            [IDENTIFYING, RELATION, IDENTIFIER, LPAREN, c1, RPAREN, DASH, LPAREN, c2, RPAREN,
             IDENTIFIER, COLON, IDENTIFIER] \<and>
          (c1 = ONE \<or> c1 = M) \<and> (c2 = ONE \<or> c2 = M) \<and> ts' = drop 13 ts"
  using assms unfolding parseIdentifyingRelation_def
  by (auto simp: bindE_Inr_iff dest!: expect_Inr parseCardinality_Inr)

lemma parse_identifying_total:
  "parse ts = Inr ast \<Longrightarrow> r \<in> set (relationships ast) \<Longrightarrow> relationshipType r = Identifying \<Longrightarrow>
     participation (leftSide r) = Total \<and> participation (rightSide r) = Total"
proof (induction ts arbitrary: ast rule: parse.induct)
  case (1 ts)
  from "1.prems"(1) show ?case
    apply (subst (asm) parse.simps)
    apply (simp split: if_splits add: bindE_Inr_iff)
    subgoal using "1.IH"(1) "1.prems"(2,3) by auto
    subgoal using "1.IH"(2) "1.prems"(2,3) by auto
    subgoal using "1.IH"(3) "1.prems"(2,3) parseRelation_Normal by fastforce
    subgoal using "1.IH"(4) "1.prems"(2,3) parseIdentifyingRelation_Total by fastforce
    subgoal using "1.IH"(5) "1.prems"(2,3) by auto
    subgoal using "1.prems"(2) by auto
    done
qed

subsection \<open>Identifying relationships\<close>

lemma expect_head:
  "ttype t = ty \<Longrightarrow> ty \<noteq> EOF \<Longrightarrow> expect ty (t # ts) = Inr (t, ts)"
  by (simp add: expect_def check_def isAtEnd_def current_def advance_def)

lemma parseCardinality_head:
  "ttype t = ONE \<or> ttype t = M \<Longrightarrow>
     parseCardinality (t # ts) = Inr (if ttype t = ONE then One else Many, ts)"
  by (auto simp: parseCardinality_def check_def isAtEnd_def current_def advance_def)

lemma parseIdentifyingRelation_accepts:
  assumes "map ttype ds =
             [IDENTIFYING, RELATION, IDENTIFIER, LPAREN, k1, RPAREN, DASH, LPAREN, k2, RPAREN,
              IDENTIFIER, COLON, IDENTIFIER]"
    and "k1 = ONE \<or> k1 = M" and "k2 = ONE \<or> k2 = M"
  shows "parseIdentifyingRelation (ds @ rest) =
           Inr (\<lparr>r_name = tvalue (ds ! 12), relationshipType = Identifying,
                 leftSide = \<lparr>entityName = tvalue (ds ! 2),
                             cardinality = (if k1 = ONE then One else Many),
                             participation = Total\<rparr>,
                 rightSide = \<lparr>entityName = tvalue (ds ! 10),
                              cardinality = (if k2 = ONE then One else Many),
                              participation = Total\<rparr>,
                 verb = tvalue (ds ! 12), r_attributes = []\<rparr>, rest)"
proof -
  from assms(1) obtain t0 t1 t2 t3 t4 t5 t6 t7 t8 t9 t10 t11 t12 where
    ds: "ds = [t0, t1, t2, t3, t4, t5, t6, t7, t8, t9, t10, t11, t12]"
    and ty: "ttype t0 = IDENTIFYING" "ttype t1 = RELATION" "ttype t2 = IDENTIFIER"
      "ttype t3 = LPAREN" "ttype t4 = k1" "ttype t5 = RPAREN" "ttype t6 = DASH"
      "ttype t7 = LPAREN" "ttype t8 = k2" "ttype t9 = RPAREN" "ttype t10 = IDENTIFIER"
      "ttype t11 = COLON" "ttype t12 = IDENTIFIER"
    by (auto simp: map_eq_Cons_conv)
  show ?thesis
    unfolding ds parseIdentifyingRelation_def using ty assms(2,3)
    by (simp add: expect_head parseCardinality_head)
qed

lemma parse_identifying_step:
  assumes "check IDENTIFYING ts" and "parse ts = Inr ast"
  shows "\<exists>r ts1 ast1. parseIdentifyingRelation ts = Inr (r, ts1) \<and> parse ts1 = Inr ast1 \<and>
           ast = ast1\<lparr>relationships := r # relationships ast1\<rparr>"
proof -
  from assms(1) have c: "\<not> isAtEnd ts" "\<not> check ENTITY ts" "\<not> check WEAK ts"
    "\<not> check RELATION ts"
    by (auto simp: check_def)
  from assms(2) show ?thesis
    apply (subst (asm) parse.simps)
    using c assms(1) by (auto simp: bindE_Inr_iff)
qed

lemma writesDoc_tokens:
  "tokenize writesDoc =
     [mkToken IDENTIFYING (js ''Identifying'') 1 1, mkToken RELATION (js ''Relation'') 1 13,
      mkToken IDENTIFIER (js ''Author'') 1 22, mkToken LPAREN (js ''('') 1 29,
      mkToken M (js ''M'') 1 30, mkToken RPAREN (js '')'') 1 31,
      mkToken DASH (js ''--'') 1 33, mkToken LPAREN (js ''('') 1 36,
      mkToken M (js ''M'') 1 37, mkToken RPAREN (js '')'') 1 38,
      mkToken IDENTIFIER (js ''Book'') 1 40, mkToken COLON (js '':'') 1 44,
      mkToken IDENTIFIER (js ''writes'') 1 46, mkToken EOF [] 1 52]"
  by (simp add: writesDoc_def tokenize_eval)

lemma writesDoc_relation:
  "parseIdentifyingRelation (tokenize writesDoc) = Inr (writesRel, [mkToken EOF [] 1 52])"
  unfolding writesDoc_tokens by (simp add: parse_eval writesRel_def mkToken_def js_def)

lemma writesDoc_parse:
  "parseDSL writesDoc = Inr \<lparr>entities = [], relationships = [writesRel]\<rparr>"
  unfolding parseDSL_def writesDoc_tokens
  by (simp add: parse_eval writesRel_def mkToken_def js_def)

text \<open>
  Claim C7. Every relationship that \<open>parseIdentifyingRelation\<close> returns has type
  \<open>Identifying\<close> and total participation on both of its sides, whatever the two
  cardinalities are, and the parser accepts an identifying relation only as the
  thirteen tokens
  \<^verbatim>\<open>Identifying Relation IDENT ( card ) DASH ( card ) IDENT : IDENT\<close> with \<open>card\<close> one
  of \<^verbatim>\<open>1\<close> and \<^verbatim>\<open>M\<close>: there is no place for a participation word, so that the
  participation cannot be set. Wherever the main loop of \<open>parse\<close> stands at the
  word \<^verbatim>\<open>Identifying\<close> and the parse succeeds, the relationship that it adds is
  the one that \<open>parseIdentifyingRelation\<close> returns there, with total participation.
  Conversely every thirteen tokens of that shape are accepted, and the relationship
  is made of the two names, the two cardinalities and the verb alone, with
  participation \<open>Total\<close>. Hence every relationship of a parsed document that has type
  \<open>Identifying\<close> is totally participating.
\<close>

theorem identifying_total_participation:
  "(parseIdentifyingRelation ts = Inr (rel, ts') \<longrightarrow>
      relationshipType rel = Identifying \<and>
      participation (leftSide rel) = Total \<and> participation (rightSide rel) = Total \<and>
      (\<exists>c1 c2. map ttype (take 13 ts) =
            [IDENTIFYING, RELATION, IDENTIFIER, LPAREN, c1, RPAREN, DASH, LPAREN, c2, RPAREN,
             IDENTIFIER, COLON, IDENTIFIER] \<and>
          (c1 = ONE \<or> c1 = M) \<and> (c2 = ONE \<or> c2 = M)) \<and>
      ts' = drop 13 ts) \<and>
   (check IDENTIFYING us \<and> parse us = Inr ast \<longrightarrow>
      (\<exists>r us1 ast1. parseIdentifyingRelation us = Inr (r, us1) \<and> parse us1 = Inr ast1 \<and>
         ast = ast1\<lparr>relationships := r # relationships ast1\<rparr> \<and>
         participation (leftSide r) = Total \<and> participation (rightSide r) = Total)) \<and>
   (map ttype ds =
      [IDENTIFYING, RELATION, IDENTIFIER, LPAREN, k1, RPAREN, DASH, LPAREN, k2, RPAREN,
       IDENTIFIER, COLON, IDENTIFIER] \<and> (k1 = ONE \<or> k1 = M) \<and> (k2 = ONE \<or> k2 = M) \<longrightarrow>
      parseIdentifyingRelation (ds @ rest) =
        Inr (\<lparr>r_name = tvalue (ds ! 12), relationshipType = Identifying,
              leftSide = \<lparr>entityName = tvalue (ds ! 2),
                          cardinality = (if k1 = ONE then One else Many),
                          participation = Total\<rparr>,
              rightSide = \<lparr>entityName = tvalue (ds ! 10),
                           cardinality = (if k2 = ONE then One else Many),
                           participation = Total\<rparr>,
              verb = tvalue (ds ! 12), r_attributes = []\<rparr>, rest)) \<and>
   (parseDSL input = Inr ast' \<longrightarrow>
      (\<forall>r \<in> set (relationships ast'). relationshipType r = Identifying \<longrightarrow>
         participation (leftSide r) = Total \<and> participation (rightSide r) = Total))"
proof (intro conjI impI)
  assume a: "parseIdentifyingRelation ts = Inr (rel, ts')"
  from parseIdentifyingRelation_Total [OF a]
  show "relationshipType rel = Identifying" "participation (leftSide rel) = Total"
    "participation (rightSide rel) = Total" by simp_all
  from parseIdentifyingRelation_shape [OF a] obtain c1 c2 where
    h: "map ttype (take 13 ts) =
            [IDENTIFYING, RELATION, IDENTIFIER, LPAREN, c1, RPAREN, DASH, LPAREN, c2, RPAREN,
             IDENTIFIER, COLON, IDENTIFIER]"
       "c1 = ONE \<or> c1 = M" "c2 = ONE \<or> c2 = M" "ts' = drop 13 ts"
    by (elim exE conjE) (rule that)
  show "\<exists>c1 c2. map ttype (take 13 ts) =
            [IDENTIFYING, RELATION, IDENTIFIER, LPAREN, c1, RPAREN, DASH, LPAREN, c2, RPAREN,
             IDENTIFIER, COLON, IDENTIFIER] \<and>
          (c1 = ONE \<or> c1 = M) \<and> (c2 = ONE \<or> c2 = M)"
    by (rule exI [of _ c1], rule exI [of _ c2]) (intro conjI h)
  show "ts' = drop 13 ts" by (rule h)
next
  assume a: "check IDENTIFYING us \<and> parse us = Inr ast"
  from parse_identifying_step [of us ast] a obtain r us1 ast1 where
    r: "parseIdentifyingRelation us = Inr (r, us1)" "parse us1 = Inr ast1"
       "ast = ast1\<lparr>relationships := r # relationships ast1\<rparr>"
    by blast
  from parseIdentifyingRelation_Total [OF r(1)] r
  show "\<exists>r us1 ast1. parseIdentifyingRelation us = Inr (r, us1) \<and> parse us1 = Inr ast1 \<and>
         ast = ast1\<lparr>relationships := r # relationships ast1\<rparr> \<and>
         participation (leftSide r) = Total \<and> participation (rightSide r) = Total"
    by blast
next
  assume a: "map ttype ds =
      [IDENTIFYING, RELATION, IDENTIFIER, LPAREN, k1, RPAREN, DASH, LPAREN, k2, RPAREN,
       IDENTIFIER, COLON, IDENTIFIER] \<and> (k1 = ONE \<or> k1 = M) \<and> (k2 = ONE \<or> k2 = M)"
  from a have a1: "map ttype ds =
      [IDENTIFYING, RELATION, IDENTIFIER, LPAREN, k1, RPAREN, DASH, LPAREN, k2, RPAREN,
       IDENTIFIER, COLON, IDENTIFIER]" by (rule conjunct1)
  from a have a2: "k1 = ONE \<or> k1 = M" by (rule conjunct2 [THEN conjunct1])
  from a have a3: "k2 = ONE \<or> k2 = M" by (rule conjunct2 [THEN conjunct2])
  show "parseIdentifyingRelation (ds @ rest) =
        Inr (\<lparr>r_name = tvalue (ds ! 12), relationshipType = Identifying,
              leftSide = \<lparr>entityName = tvalue (ds ! 2),
                          cardinality = (if k1 = ONE then One else Many),
                          participation = Total\<rparr>,
              rightSide = \<lparr>entityName = tvalue (ds ! 10),
                           cardinality = (if k2 = ONE then One else Many),
                           participation = Total\<rparr>,
              verb = tvalue (ds ! 12), r_attributes = []\<rparr>, rest)"
    by (rule parseIdentifyingRelation_accepts [OF a1 a2 a3])
next
  assume "parseDSL input = Inr ast'"
  then show "\<forall>r \<in> set (relationships ast'). relationshipType r = Identifying \<longrightarrow>
         participation (leftSide r) = Total \<and> participation (rightSide r) = Total"
    using parse_identifying_total [of "tokenize input" ast'] by (auto simp: parseDSL_def)
qed

theorem identifying_total_participation_witness:
  "parseIdentifyingRelation (tokenize writesDoc) = Inr (writesRel, [mkToken EOF [] 1 52]) \<and>
   check IDENTIFYING (tokenize writesDoc) \<and>
   parseDSL writesDoc = Inr \<lparr>entities = [], relationships = [writesRel]\<rparr> \<and>
   map ttype (take 13 (tokenize writesDoc)) =
     [IDENTIFYING, RELATION, IDENTIFIER, LPAREN, M, RPAREN, DASH, LPAREN, M, RPAREN,
      IDENTIFIER, COLON, IDENTIFIER] \<and>
   tokenize writesDoc = take 13 (tokenize writesDoc) @ [mkToken EOF [] 1 52] \<and>
   relationshipType writesRel = Identifying \<and>
   cardinality (leftSide writesRel) = Many \<and> cardinality (rightSide writesRel) = Many \<and>
   participation (leftSide writesRel) = Total \<and>
   participation (rightSide writesRel) = Total"
  using identifying_total_participation
    [of "tokenize writesDoc" writesRel "[mkToken EOF [] 1 52]"
        "tokenize writesDoc" "\<lparr>entities = [], relationships = [writesRel]\<rparr>"
        "take 13 (tokenize writesDoc)" M M "[mkToken EOF [] 1 52]"
        writesDoc "\<lparr>entities = [], relationships = [writesRel]\<rparr>"]
    writesDoc_parse writesDoc_relation
  by (simp add: writesRel_def writesDoc_tokens mkToken_def check_def isAtEnd_def current_def)

subsection \<open>Weak entities\<close>

text \<open>
  Claim C8. A weak entity declaration \<^verbatim>\<open>Weak Entity IDENT :\<close> whose attribute list
  parses and is not followed by \<^verbatim>\<open>Identified\<close> is accepted: \<open>parseWeakEntity\<close>
  returns an entity of type \<open>Weak\<close> whose \<open>identifiedBy\<close> is undefined, and the
  whole parse succeeds with that entity in front whenever the rest of the document
  parses.
\<close>

theorem weak_entity_without_identifier:
  assumes "ttype w = WEAK" and "ttype e = ENTITY" and "ttype n = IDENTIFIER"
    and "ttype c = COLON"
    and "parseAttributeList rest = Inr (attrs, rest')"
    and "\<not> check IDENTIFIED rest'"
  shows "parseWeakEntity (w # e # n # c # rest) =
           Inr (\<lparr>e_name = tvalue n, entityType = Weak, e_attributes = attrs,
                 identifiedBy = None\<rparr>, rest') \<and>
         (\<forall>ast. parse rest' = Inr ast \<longrightarrow>
            parse (w # e # n # c # rest) =
              Inr (ast\<lparr>entities := \<lparr>e_name = tvalue n, entityType = Weak,
                     e_attributes = attrs, identifiedBy = None\<rparr> # entities ast\<rparr>))"
proof -
  have pw: "parseWeakEntity (w # e # n # c # rest) =
           Inr (\<lparr>e_name = tvalue n, entityType = Weak, e_attributes = attrs,
                 identifiedBy = None\<rparr>, rest')"
    using assms by (simp add: parseWeakEntity_def expect_head)
  have "check WEAK (w # e # n # c # rest)" "\<not> check ENTITY (w # e # n # c # rest)"
    "\<not> isAtEnd (w # e # n # c # rest)"
    using assms(1) by (simp_all add: check_def isAtEnd_def current_def)
  then show ?thesis using pw by (subst parse.simps) simp
qed

lemma weakDoc_tokens:
  "tokenize weakDoc =
     [mkToken WEAK (js ''Weak'') 1 1, mkToken ENTITY (js ''Entity'') 1 6,
      mkToken IDENTIFIER (js ''OrderItem'') 1 13, mkToken COLON (js '':'') 1 22,
      mkToken IDENTIFIER (js ''quantity'') 1 24, mkToken IDENTIFIER (js ''price'') 1 33,
      mkToken EOF [] 1 38]"
  by (simp add: weakDoc_def tokenize_eval)

theorem weak_entity_without_identifier_witness:
  "parseDSL weakDoc =
     Inr \<lparr>entities = [\<lparr>e_name = js ''OrderItem'', entityType = Weak,
             e_attributes = [simpleAttribute (js ''quantity''), simpleAttribute (js ''price'')],
             identifiedBy = None\<rparr>], relationships = []\<rparr>"
proof -
  let ?rest = "[mkToken IDENTIFIER (js ''quantity'') 1 24, mkToken IDENTIFIER (js ''price'') 1 33,
      mkToken EOF [] 1 38]"
  have a: "parseAttributeList ?rest =
     Inr ([simpleAttribute (js ''quantity''), simpleAttribute (js ''price'')], [mkToken EOF [] 1 38])"
    by (simp add: parse_eval mkToken_def)
  have b: "\<not> check IDENTIFIED [mkToken EOF [] 1 38]"
    by (simp add: parse_eval mkToken_def)
  have c: "parse [mkToken EOF [] 1 38] = Inr \<lparr>entities = [], relationships = []\<rparr>"
    by (simp add: parse_eval mkToken_def)
  from weak_entity_without_identifier
    [of "mkToken WEAK (js ''Weak'') 1 1" "mkToken ENTITY (js ''Entity'') 1 6"
       "mkToken IDENTIFIER (js ''OrderItem'') 1 13" "mkToken COLON (js '':'') 1 22",
     OF _ _ _ _ a b] c
  show ?thesis
    unfolding parseDSL_def weakDoc_tokens by (simp add: mkToken_def)
qed

subsection \<open>Coherence of attribute fields\<close>

lemma coherent_simpleAttribute [simp]: "coherent (simpleAttribute n)"
  by (simp add: simpleAttribute_def)

lemma parseSubAttributeList_simple:
  "parseSubAttributeList ts = Inr (attrs, ts') \<Longrightarrow> a \<in> set attrs \<Longrightarrow> coherent a"
proof (induction ts arbitrary: attrs ts' rule: parseSubAttributeList.induct)
  case (1 ts)
  from "1.prems" show ?case
    apply (subst (asm) parseSubAttributeList.simps)
    apply (auto simp: bindE_Inr_iff split: if_splits)
    using "1.IH" apply blast
    done
qed

lemma parseAttribute_coherent:
  "parseAttribute ts = Inr (a, ts') \<Longrightarrow> coherent a"
  unfolding parseAttribute_def
  by (auto simp: bindE_Inr_iff Let_def split: if_splits dest: parseSubAttributeList_simple)



lemma parseAttributeList_coherent:
  "parseAttributeList ts = Inr (attrs, ts') \<Longrightarrow> a \<in> set attrs \<Longrightarrow> coherent a"
proof (induction ts arbitrary: attrs ts' rule: parseAttributeList.induct)
  case (1 ts)
  show ?case
  proof (cases "\<not> isAtEnd ts \<and> \<not> isEntityOrRelationStart ts")
    case False
    with "1.prems" show ?thesis by (subst (asm) parseAttributeList.simps) auto
  next
    case go: True
    show ?thesis
    proof (cases "check IDENTIFIER ts")
      case True
      with go "1.prems"(1) obtain a' ts1 as where
        p: "parseAttribute ts = Inr (a', ts1)" "parseAttributeList ts1 = Inr (as, ts')"
           "attrs = a' # as"
        by (subst (asm) parseAttributeList.simps) (auto simp: bindE_Inr_iff)
      from "1.IH"(1) [OF go True, of "(a', ts1)" a' ts1 as ts'] p
      have "a \<in> set as \<Longrightarrow> coherent a" by simp
      with p "1.prems"(2) parseAttribute_coherent [OF p(1)] show ?thesis by auto
    next
      case nid: False
      show ?thesis
      proof (cases "check IDENTIFIED ts")
        case True
        with go nid "1.prems" show ?thesis by (subst (asm) parseAttributeList.simps) auto
      next
        case False
        with go nid "1.prems"(1) have "parseAttributeList (advance ts) = Inr (attrs, ts')"
          by (subst (asm) parseAttributeList.simps) auto
        from "1.IH"(2) [OF go nid False this "1.prems"(2)] show ?thesis .
      qed
    qed
  qed
qed

lemma parseRelationAttributeList_coherent:
  "parseRelationAttributeList ts = Inr (attrs, ts') \<Longrightarrow> a \<in> set attrs \<Longrightarrow> coherent a"
proof (induction ts arbitrary: attrs ts' rule: parseRelationAttributeList.induct)
  case (1 ts)
  show ?case
  proof (cases "\<not> isAtEnd ts \<and> \<not> isEntityOrRelationStart ts \<and> check IDENTIFIER ts")
    case False
    with "1.prems" show ?thesis by (subst (asm) parseRelationAttributeList.simps) auto
  next
    case True
    with "1.prems"(1) obtain t ts1 as where
      p: "expect IDENTIFIER ts = Inr (t, ts1)" "parseRelationAttributeList ts1 = Inr (as, ts')"
         "attrs = simpleAttribute (tvalue t) # as"
      by (subst (asm) parseRelationAttributeList.simps) (auto simp: bindE_Inr_iff)
    from "1.IH" [OF True, of "(t, ts1)" t ts1 as ts'] p
    have "a \<in> set as \<Longrightarrow> coherent a" by simp
    with p "1.prems"(2) show ?thesis by auto
  qed
qed

lemma parseEntity_coherent:
  "parseEntity ts = Inr (e, ts') \<Longrightarrow> a \<in> set (e_attributes e) \<Longrightarrow> coherent a"
  unfolding parseEntity_def
  by (auto simp: bindE_Inr_iff dest: parseAttributeList_coherent)

lemma parseWeakEntity_coherent:
  "parseWeakEntity ts = Inr (e, ts') \<Longrightarrow> a \<in> set (e_attributes e) \<Longrightarrow> coherent a"
  unfolding parseWeakEntity_def
  by (auto simp: bindE_Inr_iff split: if_splits dest: parseAttributeList_coherent)

lemma parseRelation_coherent:
  "parseRelation ts = Inr (r, ts') \<Longrightarrow> a \<in> set (r_attributes r) \<Longrightarrow> coherent a"
  unfolding parseRelation_def
  by (auto simp: bindE_Inr_iff dest: parseRelationAttributeList_coherent)


lemma parse_invariant:
  assumes "parse ts = Inr ast"
    and E: "\<And>ts e ts'. parseEntity ts = Inr (e, ts') \<Longrightarrow> PE e"
    and W: "\<And>ts e ts'. parseWeakEntity ts = Inr (e, ts') \<Longrightarrow> PE e"
    and R: "\<And>ts r ts'. parseRelation ts = Inr (r, ts') \<Longrightarrow> PR r"
    and I: "\<And>ts r ts'. parseIdentifyingRelation ts = Inr (r, ts') \<Longrightarrow> PR r"
  shows "(\<forall>e \<in> set (entities ast). PE e) \<and> (\<forall>r \<in> set (relationships ast). PR r)"
  using assms(1)
proof (induction ts arbitrary: ast rule: parse.induct)
  case (1 ts)
  from "1.prems"(1) show ?case
    apply (subst (asm) parse.simps)
    apply (simp split: if_splits add: bindE_Inr_iff)
    subgoal using "1.IH"(1) E by fastforce
    subgoal using "1.IH"(2) W by fastforce
    subgoal using "1.IH"(3) R by fastforce
    subgoal using "1.IH"(4) I by fastforce
    subgoal using "1.IH"(5) by auto
    subgoal by auto
    done
qed

text \<open>
  Claim C10. In the tree that \<open>parseDSL\<close> returns, every attribute of an entity or
  of a relationship, and every attribute nested in one, has its sub-attribute list
  defined exactly when it is composite, a data type only when it is typed, a foreign
  key target only when its key is \<open>Fk\<close>, and a key only when it is simple.
\<close>

theorem attribute_coherence:
  assumes "parseDSL input = Inr ast"
  shows "(\<forall>e \<in> set (entities ast). \<forall>a \<in> set (e_attributes e). coherent a) \<and>
         (\<forall>r \<in> set (relationships ast). \<forall>a \<in> set (r_attributes r). coherent a)"
proof (rule parse_invariant [of "tokenize input" ast])
  show "parse (tokenize input) = Inr ast" using assms by (simp add: parseDSL_def)
next
  fix ts e ts' assume "parseEntity ts = Inr (e, ts')"
  then show "\<forall>a \<in> set (e_attributes e). coherent a" using parseEntity_coherent by blast
next
  fix ts e ts' assume "parseWeakEntity ts = Inr (e, ts')"
  then show "\<forall>a \<in> set (e_attributes e). coherent a" using parseWeakEntity_coherent by blast
next
  fix ts r ts' assume "parseRelation ts = Inr (r, ts')"
  then show "\<forall>a \<in> set (r_attributes r). coherent a" using parseRelation_coherent by blast
next
  fix ts r ts' assume "parseIdentifyingRelation ts = Inr (r, ts')"
  then show "\<forall>a \<in> set (r_attributes r). coherent a"
    using parseIdentifyingRelation_Total by fastforce
qed

lemma storeDoc_tokens:
  "tokenize storeDoc =
     [mkToken ENTITY (js ''Entity'') 1 1, mkToken IDENTIFIER (js ''S'') 1 8,
      mkToken COLON (js '':'') 1 9, mkToken IDENTIFIER (js ''id'') 1 11,
      mkToken PK (js ''PK'') 1 14, mkToken IDENTIFIER (js ''addr'') 1 17,
      mkToken COMPOSITE (js ''Composite'') 1 22, mkToken COLON (js '':'') 1 31,
      mkToken IDENTIFIER (js ''street'') 1 33, mkToken IDENTIFIER (js ''owner'') 1 40,
      mkToken FK (js ''FK'') 1 46, mkToken ARROW (js ''->'') 1 49,
      mkToken IDENTIFIER (js ''P'') 1 52, mkToken DOT (js ''.'') 1 53,
      mkToken IDENTIFIER (js ''id'') 1 54, mkToken IDENTIFIER (js ''cnt'') 1 57,
      mkToken COLON (js '':'') 1 60, mkToken IDENTIFIER (js ''int'') 1 62,
      mkToken EOF [] 1 65]"
  by (simp add: storeDoc_def tokenize_eval)

lemma storeDoc_parse: "parseDSL storeDoc = Inr storeAst"
  unfolding parseDSL_def storeDoc_tokens
  by (simp add: parse_eval storeAst_def mkToken_def js_def)



theorem attribute_coherence_witness:
  "parseDSL storeDoc = Inr storeAst \<and>
   list_all coherent (concat (map e_attributes (entities storeAst)))"
  using attribute_coherence [OF storeDoc_parse] storeDoc_parse
  by (simp add: list_all_iff)

subsection \<open>The end of a sub-attribute list\<close>

lemma check_IDENTIFIER_Cons:
  "check IDENTIFIER ts \<Longrightarrow> \<exists>t ts1. ts = t # ts1 \<and> ttype t = IDENTIFIER \<and>
     expect IDENTIFIER ts = Inr (t, ts1)"
  by (cases ts) (auto simp: check_def isAtEnd_def current_def expect_def advance_def mkToken_def)

lemma check_keyword_not_IDENTIFIER:
  "isEntityOrRelationStart ts \<or> check IDENTIFIED ts \<Longrightarrow> \<not> check IDENTIFIER ts"
  by (auto simp: isEntityOrRelationStart_def check_def)

text \<open>
  Claim C5, as the code has it. \<open>parseSubAttributeList\<close> never fails. It consumes
  IDENTIFIER tokens only, so no keyword is ever consumed, and it stops at the first
  position where the current token is not an IDENTIFIER (a top-level keyword,
  \<^verbatim>\<open>Identified\<close>, any other keyword, punctuation, a number or the end of the input)
  or where the token after the current IDENTIFIER is one of PK, FK, COMPOSITE,
  MULTIVALUED and DERIVED, which makes the current token the name of the next
  attribute of the entity.
\<close>

theorem subAttributeList_stop:
  "\<exists>consumed rest.
     parseSubAttributeList ts = Inr (map (\<lambda>t. simpleAttribute (tvalue t)) consumed, rest) \<and>
     ts = consumed @ rest \<and>
     (\<forall>t \<in> set consumed. ttype t = IDENTIFIER) \<and>
     (\<forall>i < length consumed. \<not> nextIsMarker (drop i ts)) \<and>
     (\<not> check IDENTIFIER rest \<or> nextIsMarker rest)"
proof (induction ts rule: parseSubAttributeList.induct)
  case (1 ts)
  show ?case
  proof (cases "check IDENTIFIER ts \<and> \<not> nextIsMarker ts")
    case False
    then have "parseSubAttributeList ts = Inr ([], ts)"
      by (subst parseSubAttributeList.simps) (auto simp: check_def)
    with False show ?thesis by (intro exI [of _ "[]"] exI [of _ ts]) simp
  next
    case True
    then obtain t ts1 where ts: "ts = t # ts1" and ty: "ttype t = IDENTIFIER"
      and ex: "expect IDENTIFIER ts = Inr (t, ts1)"
      using check_IDENTIFIER_Cons by blast
    from True have nae: "\<not> isAtEnd ts" by (simp add: check_def)
    show ?thesis
    proof (cases "isEntityOrRelationStart ts1 \<or> check IDENTIFIED ts1")
      case kw: True
      with True nae ex have "parseSubAttributeList ts = Inr ([simpleAttribute (tvalue t)], ts1)"
        by (subst parseSubAttributeList.simps) auto
      with kw ts ty True check_keyword_not_IDENTIFIER [OF kw] show ?thesis
        by (intro exI [of _ "[t]"] exI [of _ ts1]) simp
    next
      case nokw: False
      from "1.IH" [of "(t, ts1)" t ts1] nae True ex nokw
      obtain consumed rest where
        r: "parseSubAttributeList ts1 =
              Inr (map (\<lambda>t. simpleAttribute (tvalue t)) consumed, rest)"
        and c: "ts1 = consumed @ rest" "\<forall>t \<in> set consumed. ttype t = IDENTIFIER"
          "\<forall>i < length consumed. \<not> nextIsMarker (drop i ts1)"
          "\<not> check IDENTIFIER rest \<or> nextIsMarker rest"
        by auto
      from True nae ex nokw r
      have "parseSubAttributeList ts =
              Inr (map (\<lambda>t. simpleAttribute (tvalue t)) (t # consumed), rest)"
        by (subst parseSubAttributeList.simps) auto
      moreover have "\<forall>i < length (t # consumed). \<not> nextIsMarker (drop i ts)"
      proof (intro allI impI)
        fix i assume "i < length (t # consumed)"
        then show "\<not> nextIsMarker (drop i ts)"
          using c(3) True ts by (cases i) auto
      qed
      ultimately show ?thesis using c ts ty
        by (intro exI [of _ "t # consumed"] exI [of _ rest]) simp
    qed
  qed
qed



lemma compositeDoc_tokens: "tokenize compositeDoc = compositeTokens"
  by (simp add: compositeDoc_def compositeTokens_def tokenize_eval)

lemma compositeDoc_subAttributes:
  "parseSubAttributeList (drop 6 compositeTokens) =
     Inr ([simpleAttribute (js ''street'')], drop 7 compositeTokens)"
  by (simp add: compositeTokens_def parse_eval mkToken_def)

theorem subAttributeList_stop_witness:
  "parseSubAttributeList (drop 6 (tokenize compositeDoc)) =
     Inr ([simpleAttribute (js ''street'')], drop 7 (tokenize compositeDoc)) \<and>
   check IDENTIFIER (drop 7 (tokenize compositeDoc)) \<and>
   nextIsMarker (drop 7 (tokenize compositeDoc))"
proof -
  have c: "check IDENTIFIER (drop 7 compositeTokens)"
    by (simp add: compositeTokens_def check_def isAtEnd_def current_def mkToken_def)
  from subAttributeList_stop [of "drop 6 compositeTokens"]
  obtain consumed rest where
    h: "parseSubAttributeList (drop 6 compositeTokens) =
       Inr (map (\<lambda>t. simpleAttribute (tvalue t)) consumed, rest) \<and>
     drop 6 compositeTokens = consumed @ rest \<and>
     (\<forall>t \<in> set consumed. ttype t = IDENTIFIER) \<and>
     (\<forall>i < length consumed. \<not> nextIsMarker (drop i (drop 6 compositeTokens))) \<and>
     (\<not> check IDENTIFIER rest \<or> nextIsMarker rest)"
    by (elim exE) (erule that)
  note r = h [THEN conjunct1]
  note st = h [THEN conjunct2, THEN conjunct2, THEN conjunct2, THEN conjunct2]
  from r have "rest = drop 7 compositeTokens"
    unfolding compositeDoc_subAttributes by simp
  with st c show ?thesis
    unfolding compositeDoc_tokens compositeDoc_subAttributes by simp
qed

text \<open>
  Claim C5, as the spec states it, fails: in the document
  \<^verbatim>\<open>Entity A: addr Composite: street zip PK\<close> the sub-attribute list of \<open>addr\<close>
  is \<open>street\<close> alone. It ends in front of the IDENTIFIER \<open>zip\<close>, which is neither
  a top-level keyword nor \<^verbatim>\<open>Identified\<close>, and the document holds no such keyword
  after the list at all.
\<close>

theorem subAttributeList_stop_counterexample:
  "parseSubAttributeList (drop 6 (tokenize compositeDoc)) =
     Inr ([simpleAttribute (js ''street'')], drop 7 (tokenize compositeDoc)) \<and>
   ttype (current (drop 7 (tokenize compositeDoc))) = IDENTIFIER \<and>
   \<not> isEntityOrRelationStart (drop 7 (tokenize compositeDoc)) \<and>
   \<not> check IDENTIFIED (drop 7 (tokenize compositeDoc)) \<and>
   map ttype (drop 7 (tokenize compositeDoc)) = [IDENTIFIER, PK, EOF] \<and>
   parseDSL compositeDoc =
     Inr \<lparr>entities =
            [\<lparr>e_name = js ''A'', entityType = Strong,
              e_attributes =
                [AttributeNode (js ''addr'') Composite NoKey None None
                   (Some [simpleAttribute (js ''street'')]),
                 AttributeNode (js ''zip'') Simple Pk None None None],
              identifiedBy = None\<rparr>],
          relationships = []\<rparr>"
  unfolding parseDSL_def compositeDoc_tokens
  by (simp add: compositeTokens_def parse_eval mkToken_def js_def)

subsection \<open>The error of a wrong cardinality\<close>

text \<open>
  Whatever token stands where a cardinality is expected, the message of the error
  names the line of that token and nothing else of its position.
\<close>

lemma parseCardinality_error:
  "ttype (current ts) \<noteq> ONE \<Longrightarrow> ttype (current ts) \<noteq> M \<Longrightarrow>
     parseCardinality ts =
       Inl (Error (js ''Expected cardinality (1 or M) at line '' @ showNat (tline (current ts))))"
  by (simp add: parseCardinality_def check_def)

text \<open>
  Claim C6. The document \<^verbatim>\<open>Relation A\<close>, line feed, \<^verbatim>\<open>  (2) -- (M) B: r\<close> has the
  number 2 where the left cardinality belongs, at line 2, column 4. Parsing fails with
  the message \<^verbatim>\<open>Expected cardinality (1 or M) at line 2\<close>: the line is there, the
  column is not, unlike in the messages of \<open>expect\<close>.
\<close>

theorem cardinality_error_has_no_column:
  "tokenize cardDoc ! 3 = mkToken NUMBER (js ''2'') 2 4 \<and>
   parseDSL cardDoc = Inl (Error (js ''Expected cardinality (1 or M) at line 2''))"
proof -
  have t: "tokenize cardDoc =
     [mkToken RELATION (js ''Relation'') 1 1, mkToken IDENTIFIER (js ''A'') 1 10,
      mkToken LPAREN (js ''('') 2 3, mkToken NUMBER (js ''2'') 2 4,
      mkToken RPAREN (js '')'') 2 5, mkToken DASH (js ''--'') 2 7,
      mkToken LPAREN (js ''('') 2 10, mkToken M (js ''M'') 2 11,
      mkToken RPAREN (js '')'') 2 12, mkToken IDENTIFIER (js ''B'') 2 14,
      mkToken COLON (js '':'') 2 15, mkToken IDENTIFIER (js ''r'') 2 17,
      mkToken EOF [] 2 18]"
    by (simp add: cardDoc_def tokenize_eval)
  have s: "showNat 2 = js ''2''" by (simp add: showNat.simps js_def)
  show ?thesis unfolding parseDSL_def t
    by (simp add: parse_eval mkToken_def s) (simp add: js_def)
qed

subsection \<open>Printing and parsing again\<close>

lemmas generate_eval = generateDSL_def generateEntity_def generateRelationship_def
  generateSide_def trim_def isTrimmed_def js_def emdash_def truthy_def

text \<open>
  Claim C1. The document \<^verbatim>\<open>Entity A: x FK\<close> parses to an entity whose attribute
  \<open>x\<close> is a foreign key without a target. The printer writes no key marker for it,
  so the printed text parses to an attribute without a key: parsing, printing and
  parsing again does not give the first tree back.
\<close>

theorem round_trip_loses_foreign_key:
  "parseDSL fkDoc = Inr (fkAst Fk) \<and>
   generateDSL (fkAst Fk) = js ''Entity A:'' @ [10] @ js ''  x'' \<and>
   parseDSL (generateDSL (fkAst Fk)) = Inr (fkAst NoKey) \<and>
   fkAst NoKey \<noteq> fkAst Fk"
proof -
  have t1: "tokenize fkDoc =
     [mkToken ENTITY (js ''Entity'') 1 1, mkToken IDENTIFIER (js ''A'') 1 8,
      mkToken COLON (js '':'') 1 9, mkToken IDENTIFIER (js ''x'') 1 11,
      mkToken FK (js ''FK'') 1 13, mkToken EOF [] 1 15]"
    by (simp add: fkDoc_def tokenize_eval)
  have p1: "parseDSL fkDoc = Inr (fkAst Fk)"
    unfolding parseDSL_def t1 by (simp add: parse_eval mkToken_def fkAst_def js_def)
  have g: "generateDSL (fkAst Fk) = js ''Entity A:'' @ [10] @ js ''  x''"
    by (simp add: fkAst_def generate_eval)
  have t2: "tokenize (js ''Entity A:'' @ [10] @ js ''  x'') =
     [mkToken ENTITY (js ''Entity'') 1 1, mkToken IDENTIFIER (js ''A'') 1 8,
      mkToken COLON (js '':'') 1 9, mkToken IDENTIFIER (js ''x'') 2 3, mkToken EOF [] 2 4]"
    by (simp add: tokenize_eval)
  have p2: "parseDSL (generateDSL (fkAst Fk)) = Inr (fkAst NoKey)"
    unfolding parseDSL_def g t2 by (simp add: parse_eval mkToken_def fkAst_def js_def)
  have ne: "fkAst NoKey \<noteq> fkAst Fk" by (simp add: fkAst_def)
  from p1 g p2 ne show ?thesis by simp
qed

section \<open>Properties of the reverse transform\<close>

lemmas reverse_eval = diagramModelToAST_def buildNodeMap_def buildChildrenMap_def childStep_def
  isContainmentEdge_def isRelationalEdge_def attributeOfNode_def entityOfNode_def relEdges_def
  defaultLeftSide_def defaultRightSide_def sideStep_def relationshipSides_def
  relationshipOfNode_def isEntityNode_def isRelationshipNode_def isAttributeNode_def
  emptyNode_def emptyEdge_def truthy_def relationshipNodes_def simpleAttribute_def

lemma buildNodeMap_fold:
  "fold (\<lambda>node nodeMap. nodeMap(n_id node \<mapsto> node)) ns m0 k = Some n \<Longrightarrow>
     (n_id n = k \<and> n \<in> set ns) \<or> m0 k = Some n"
proof (induction ns arbitrary: m0)
  case Nil
  then show ?case by simp
next
  case (Cons a ns)
  from Cons.IH [of "m0(n_id a \<mapsto> a)"] Cons.prems show ?case
    by (auto split: if_splits)
qed

lemma buildNodeMap_Some: "buildNodeMap ns k = Some n \<Longrightarrow> n_id n = k \<and> n \<in> set ns"
  using buildNodeMap_fold [of ns Map.empty k n] by (simp add: buildNodeMap_def)

lemma buildChildrenMap_fold:
  "fold (childStep nm) es cm0 src =
     cm0 src @ List.map_filter
       (\<lambda>e. if sourceCardinality e = None \<and> targetCardinality e = None \<and> sourceId e = src
            then nm (targetId e) else None) es"
proof (induction es arbitrary: cm0)
  case Nil
  then show ?case by (simp add: map_filter_simps)
next
  case (Cons e es)
  have step: "childStep nm e cm0 src =
      cm0 src @ (if sourceCardinality e = None \<and> targetCardinality e = None \<and> sourceId e = src
                 then (case nm (targetId e) of Some c \<Rightarrow> [c] | None \<Rightarrow> []) else [])"
    by (auto simp: childStep_def isContainmentEdge_def split: option.splits)
  show ?case
    by (simp add: Cons.IH step map_filter_simps split: option.splits)
qed

lemma buildChildrenMap_eq:
  "buildChildrenMap nm es src =
     List.map_filter
       (\<lambda>e. if sourceCardinality e = None \<and> targetCardinality e = None \<and> sourceId e = src
            then nm (targetId e) else None) es"
  by (simp add: buildChildrenMap_def buildChildrenMap_fold)

lemma buildChildrenMap_clear:
  "buildChildrenMap nm (map clearParticipation es) = buildChildrenMap nm es"
proof
  fix src
  show "buildChildrenMap nm (map clearParticipation es) src = buildChildrenMap nm es src"
    unfolding buildChildrenMap_eq
    by (induction es)
       (auto simp: map_filter_simps clearParticipation_def isContainmentEdge_def
             split: option.splits)
qed

lemma relEdges_clear:
  "relEdges (model\<lparr>edges := map clearParticipation (edges model)\<rparr>) node = relEdges model node"
proof -
  have "filter (\<lambda>e. (sourceId e = n_id node \<or> targetId e = n_id node) \<and> isRelationalEdge e)
          (map clearParticipation es) =
        filter (\<lambda>e. (sourceId e = n_id node \<or> targetId e = n_id node) \<and> isRelationalEdge e) es"
    for es
    by (induction es)
       (auto simp: clearParticipation_def isContainmentEdge_def isRelationalEdge_def)
  then show ?thesis by (simp add: relEdges_def)
qed

lemma relationshipSides_clear:
  "relationshipSides (model\<lparr>edges := map clearParticipation (edges model)\<rparr>) node =
   relationshipSides model node"
  by (simp add: relationshipSides_def relEdges_clear)

lemma relationshipOfNode_clear:
  "relationshipOfNode (model\<lparr>edges := map clearParticipation (edges model)\<rparr>) node =
   relationshipOfNode model node"
  by (rule ext) (simp add: relationshipOfNode_def relationshipSides_clear)

subsection \<open>Kinds of edges\<close>

text \<open>
  Claim C2, as the code has it. The reverse transform tells the kinds of edges apart by
  the two cardinality fields alone: the edges it reads the sides of a relationship
  from are the incident edges with a cardinality, the edges it reads children from are
  the edges without one, and the participation fields of an edge without cardinality
  have no influence on the result.
\<close>

theorem edge_classification_by_cardinality:
  "diagramModelToAST fuel (model\<lparr>edges := map clearParticipation (edges model)\<rparr>) =
     diagramModelToAST fuel model \<and>
   relEdges model node =
     filter (\<lambda>e. (sourceId e = n_id node \<or> targetId e = n_id node) \<and>
                 (sourceCardinality e \<noteq> None \<or> targetCardinality e \<noteq> None)) (edges model) \<and>
   buildChildrenMap (buildNodeMap (nodes model)) (edges model) src =
     List.map_filter
       (\<lambda>e. if sourceCardinality e = None \<and> targetCardinality e = None \<and> sourceId e = src
            then buildNodeMap (nodes model) (targetId e) else None) (edges model)"
proof (intro conjI)
  show "diagramModelToAST fuel (model\<lparr>edges := map clearParticipation (edges model)\<rparr>) =
     diagramModelToAST fuel model"
    by (simp add: diagramModelToAST_def buildChildrenMap_clear relationshipOfNode_clear Let_def
          cong: option.case_cong)
  show "relEdges model node =
     filter (\<lambda>e. (sourceId e = n_id node \<or> targetId e = n_id node) \<and>
                 (sourceCardinality e \<noteq> None \<or> targetCardinality e \<noteq> None)) (edges model)"
    by (simp add: relEdges_def isRelationalEdge_def)
  show "buildChildrenMap (buildNodeMap (nodes model)) (edges model) src =
     List.map_filter
       (\<lambda>e. if sourceCardinality e = None \<and> targetCardinality e = None \<and> sourceId e = src
            then buildNodeMap (nodes model) (targetId e) else None) (edges model)"
    by (rule buildChildrenMap_eq)
qed


theorem edge_classification_by_cardinality_witness:
  "diagramModelToAST 1
     (participationModel\<lparr>edges := map clearParticipation (edges participationModel)\<rparr>) =
     diagramModelToAST 1 participationModel \<and>
   map clearParticipation (edges participationModel) =
     [emptyEdge (js ''e1'') (js ''n1'') (js ''n2''), emptyEdge (js ''e2'') (js ''n1'') (js ''n3'')] \<and>
   relEdges participationModel (emptyNode (js ''n2'') N_relationship (js ''places'')) = []"
proof -
  have "map clearParticipation (edges participationModel) =
     [emptyEdge (js ''e1'') (js ''n1'') (js ''n2''), emptyEdge (js ''e2'') (js ''n1'') (js ''n3'')]"
    by (simp add: participationModel_def clearParticipation_def isContainmentEdge_def
          emptyEdge_def)
  moreover have "filter (\<lambda>e. (sourceId e = js ''n2'' \<or> targetId e = js ''n2'') \<and>
                 (sourceCardinality e \<noteq> None \<or> targetCardinality e \<noteq> None))
            (edges participationModel) = []"
    by (simp add: participationModel_def emptyEdge_def)
  ultimately show ?thesis
    using edge_classification_by_cardinality
      [of 1 participationModel "emptyNode (js ''n2'') N_relationship (js ''places'')"]
    by (simp add: emptyNode_def)
qed

text \<open>
  Claim C2, as the spec states it, fails. An edge whose only field is
  \<^verbatim>\<open>sourceParticipation: 'total'\<close> passes the test for containment and not the one for
  relational edges: from the entity \<open>Customer\<close> to the attribute \<open>email\<close> it makes
  \<open>email\<close> an attribute of the entity, and from \<open>Customer\<close> to the relationship
  \<open>places\<close> it leaves the left side of the relationship at its default.
\<close>

theorem edge_classification_counterexample:
  "isContainmentEdge
     ((emptyEdge (js ''e1'') (js ''n1'') (js ''n2''))\<lparr>sourceParticipation := Some Total\<rparr>) \<and>
   \<not> isRelationalEdge
     ((emptyEdge (js ''e1'') (js ''n1'') (js ''n2''))\<lparr>sourceParticipation := Some Total\<rparr>) \<and>
   diagramModelToAST 1 participationModel =
     Some \<lparr>entities =
             [\<lparr>e_name = js ''Customer'', entityType = Strong,
               e_attributes = [simpleAttribute (js ''email'')], identifiedBy = None\<rparr>],
           relationships =
             [\<lparr>r_name = js ''places'', relationshipType = Normal,
               leftSide = \<lparr>entityName = [], cardinality = One, participation = Partial\<rparr>,
               rightSide = \<lparr>entityName = [], cardinality = Many, participation = Partial\<rparr>,
               verb = js ''places'', r_attributes = []\<rparr>]\<rparr>"
  by (simp add: participationModel_def reverse_eval js_def)

subsection \<open>Sides of a relationship\<close>


lemma those_Some_nth:
  "those xs = Some ys \<Longrightarrow> length ys = length xs \<and> (\<forall>j < length xs. xs ! j = Some (ys ! j))"
proof (induction xs arbitrary: ys)
  case Nil
  then show ?case by simp
next
  case (Cons x xs)
  from Cons.prems obtain y ys' where x: "x = Some y" and t: "those xs = Some ys'"
    and ys: "ys = y # ys'"
    by (auto split: option.splits)
  from Cons.IH [OF t] have "length ys' = length xs" "\<forall>j < length xs. xs ! j = Some (ys' ! j)"
    by simp_all
  with x ys show ?case by (auto simp: nth_Cons split: nat.splits)
qed

lemma those_None_iff: "those xs = None \<longleftrightarrow> None \<in> set xs"
  by (induction xs) (auto split: option.splits)

lemma sideStep_fst:
  "fst (sideStep nm node e (l, r)) = (if suppliesLeft nm node e then leftSideOf nm e else l)"
  by (auto simp: sideStep_def suppliesLeft_def leftSideOf_def split: option.splits)

lemma sideStep_snd:
  "snd (sideStep nm node e (l, r)) = (if suppliesRight nm node e then rightSideOf nm e else r)"
  by (auto simp: sideStep_def suppliesRight_def rightSideOf_def split: option.splits)

lemma fold_sideStep_fst:
  "fst (fold (sideStep nm node) es (l, r)) =
     fold (\<lambda>e l. if suppliesLeft nm node e then leftSideOf nm e else l) es l"
proof (induction es arbitrary: l r)
  case Nil
  then show ?case by simp
next
  case (Cons e es)
  obtain l' r' where s: "sideStep nm node e (l, r) = (l', r')" by (cases "sideStep nm node e (l, r)")
  with sideStep_fst [of nm node e l r]
  have "l' = (if suppliesLeft nm node e then leftSideOf nm e else l)" by simp
  with s Cons.IH [of l' r'] show ?case by simp
qed

lemma fold_sideStep_snd:
  "snd (fold (sideStep nm node) es (l, r)) =
     fold (\<lambda>e r. if suppliesRight nm node e then rightSideOf nm e else r) es r"
proof (induction es arbitrary: l r)
  case Nil
  then show ?case by simp
next
  case (Cons e es)
  obtain l' r' where s: "sideStep nm node e (l, r) = (l', r')" by (cases "sideStep nm node e (l, r)")
  with sideStep_snd [of nm node e l r]
  have "r' = (if suppliesRight nm node e then rightSideOf nm e else r)" by simp
  with s Cons.IH [of l' r'] show ?case by simp
qed

lemma fold_choose_none:
  "\<forall>e \<in> set es. \<not> P e \<Longrightarrow> fold (\<lambda>e a. if P e then f e else a) es a = a"
  by (induction es arbitrary: a) simp_all

lemma fold_choose_last:
  "P e \<Longrightarrow> \<forall>e' \<in> set es2. \<not> P e' \<Longrightarrow>
     fold (\<lambda>e a. if P e then f e else a) (es1 @ e # es2) a = f e"
  by (simp add: fold_choose_none)

lemma relationshipSides_left_default:
  assumes "\<forall>e \<in> set (relEdges model node). \<not> suppliesLeft (buildNodeMap (nodes model)) node e"
  shows "fst (relationshipSides model node) = defaultLeftSide"
  using assms by (simp add: relationshipSides_def fold_sideStep_fst fold_choose_none)

lemma relationshipSides_right_default:
  assumes "\<forall>e \<in> set (relEdges model node). \<not> suppliesRight (buildNodeMap (nodes model)) node e"
  shows "snd (relationshipSides model node) = defaultRightSide"
  using assms by (simp add: relationshipSides_def fold_sideStep_snd fold_choose_none)

lemma relationshipSides_left_last:
  assumes "relEdges model node = es1 @ e # es2"
    and "suppliesLeft (buildNodeMap (nodes model)) node e"
    and "\<forall>e' \<in> set es2. \<not> suppliesLeft (buildNodeMap (nodes model)) node e'"
  shows "fst (relationshipSides model node) = leftSideOf (buildNodeMap (nodes model)) e"
  unfolding relationshipSides_def fold_sideStep_fst assms(1)
  using assms(2,3) by (rule fold_choose_last)

lemma relationshipSides_right_last:
  assumes "relEdges model node = es1 @ e # es2"
    and "suppliesRight (buildNodeMap (nodes model)) node e"
    and "\<forall>e' \<in> set es2. \<not> suppliesRight (buildNodeMap (nodes model)) node e'"
  shows "snd (relationshipSides model node) = rightSideOf (buildNodeMap (nodes model)) e"
  unfolding relationshipSides_def fold_sideStep_snd assms(1)
  using assms(2,3) by (rule fold_choose_last)

lemma diagramModelToAST_relationships:
  assumes "diagramModelToAST fuel model = Some ast"
  shows "length (relationships ast) = length (relationshipNodes model) \<and>
         (\<forall>j < length (relationshipNodes model).
            \<exists>attrs. relationships ast ! j =
                      relationshipOfNode model (relationshipNodes model ! j) attrs)"
proof -
  let ?cm = "buildChildrenMap (buildNodeMap (nodes model)) (edges model)"
  let ?f = "\<lambda>node. map_option (relationshipOfNode model node)
                      (getAttributesForNode fuel (n_id node) ?cm)"
  from assms obtain rels where
    t: "those (map ?f (filter isRelationshipNode (nodes model))) = Some rels"
    and r: "relationships ast = rels"
    by (auto simp: diagramModelToAST_def Let_def split: option.splits)
  from those_Some_nth [OF t]
  have len: "length rels = length (relationshipNodes model)"
    and nth: "\<forall>j < length (relationshipNodes model).
                 ?f (relationshipNodes model ! j) = Some (rels ! j)"
    by (simp_all add: relationshipNodes_def)
  show ?thesis
  proof (intro conjI allI impI)
    show "length (relationships ast) = length (relationshipNodes model)" using len r by simp
  next
    fix j assume "j < length (relationshipNodes model)"
    with nth have "?f (relationshipNodes model ! j) = Some (rels ! j)" by simp
    then obtain z where "relationshipOfNode model (relationshipNodes model ! j) z = rels ! j"
      by auto
    then show "\<exists>attrs. relationships ast ! j =
                      relationshipOfNode model (relationshipNodes model ! j) attrs"
      using r by (intro exI [of _ z]) simp
  qed
qed


lemma set_map_filter_Some:
  "set (List.map_filter f xs) = {y. \<exists>x \<in> set xs. f x = Some y}"
  by (induction xs) (auto split: option.splits)

lemma nat_member_le_sum_list: "(x::nat) \<in> set xs \<Longrightarrow> x \<le> sum_list xs"
  by (induction xs) auto

lemma those_map_not_None:
  "(\<And>x. x \<in> set xs \<Longrightarrow> f x \<noteq> None) \<Longrightarrow> those (map f xs) \<noteq> None"
  by (induction xs) (auto split: option.splits)

lemma getAttributesForNode_returns:
  fixes rank :: "jsstring \<Rightarrow> nat"
  assumes rank: "\<forall>e \<in> set es. isContainmentEdge e \<longrightarrow>
            (\<forall>c. nm (targetId e) = Some c \<longrightarrow> n_type c = N_compositeAttribute \<longrightarrow>
                 rank (targetId e) < rank (sourceId e))"
    and nm: "\<And>k n. nm k = Some n \<Longrightarrow> n_id n = k"
  shows "rank nodeId < fuel \<Longrightarrow> getAttributesForNode fuel nodeId (buildChildrenMap nm es) \<noteq> None"
proof (induction fuel arbitrary: nodeId)
  case 0
  then show ?case by simp
next
  case (Suc fuel)
  let ?cm = "buildChildrenMap nm es"
  let ?g = "\<lambda>child. if n_type child = N_compositeAttribute then
                     (case getAttributesForNode fuel (n_id child) ?cm of
                        None \<Rightarrow> None
                      | Some subs \<Rightarrow> Some (attributeOfNode child (Some subs)))
                   else Some (attributeOfNode child None)"
  have "?g child \<noteq> None" if c: "child \<in> set (?cm nodeId)" for child
  proof (cases "n_type child = N_compositeAttribute")
    case False
    then show ?thesis by simp
  next
    case True
    from c obtain e where e: "e \<in> set es" "sourceCardinality e = None"
      "targetCardinality e = None" "sourceId e = nodeId" "nm (targetId e) = Some child"
      unfolding buildChildrenMap_eq by (auto simp: set_map_filter_Some split: if_splits)
    from rank e True have "rank (targetId e) < rank nodeId"
      by (auto simp: isContainmentEdge_def)
    moreover from nm [OF e(5)] have "n_id child = targetId e" .
    ultimately have "rank (n_id child) < fuel" using Suc.prems by simp
    from Suc.IH [OF this] True show ?thesis by (auto split: option.splits)
  qed
  then have "those (map ?g (filter isAttributeNode (?cm nodeId))) \<noteq> None"
    by (intro those_map_not_None) simp
  then show ?case by simp
qed

lemma diagramModelToAST_returns:
  fixes rank :: "jsstring \<Rightarrow> nat"
  assumes "\<forall>e \<in> set (edges model). isContainmentEdge e \<longrightarrow>
            (\<forall>c. buildNodeMap (nodes model) (targetId e) = Some c \<longrightarrow>
                 n_type c = N_compositeAttribute \<longrightarrow> rank (targetId e) < rank (sourceId e))"
  shows "\<exists>fuel ast. diagramModelToAST fuel model = Some ast"
proof -
  let ?nm = "buildNodeMap (nodes model)"
  let ?cm = "buildChildrenMap ?nm (edges model)"
  let ?fuel = "Suc (sum_list (map (\<lambda>n. rank (n_id n)) (nodes model)))"
  have g: "getAttributesForNode ?fuel (n_id node) ?cm \<noteq> None" if "node \<in> set (nodes model)"
    for node
  proof -
    from that have "rank (n_id node) \<in> set (map (\<lambda>n. rank (n_id n)) (nodes model))" by auto
    then have "rank (n_id node) \<le> sum_list (map (\<lambda>n. rank (n_id n)) (nodes model))"
      by (rule nat_member_le_sum_list)
    then have "rank (n_id node) < ?fuel" by simp
    with getAttributesForNode_returns [of "edges model" ?nm rank "n_id node" ?fuel] assms
    show ?thesis using buildNodeMap_Some by blast
  qed
  have "those (map (\<lambda>node. map_option (entityOfNode node)
                   (getAttributesForNode ?fuel (n_id node) ?cm))
                 (filter isEntityNode (nodes model))) \<noteq> None"
    by (intro those_map_not_None) (use g in simp)
  then obtain ents where e: "those (map (\<lambda>node. map_option (entityOfNode node)
                   (getAttributesForNode ?fuel (n_id node) ?cm))
                 (filter isEntityNode (nodes model))) = Some ents"
    by blast
  have "those (map (\<lambda>node. map_option (relationshipOfNode model node)
                   (getAttributesForNode ?fuel (n_id node) ?cm))
                 (filter isRelationshipNode (nodes model))) \<noteq> None"
    by (intro those_map_not_None) (use g in simp)
  then obtain rels where r: "those (map (\<lambda>node. map_option (relationshipOfNode model node)
                   (getAttributesForNode ?fuel (n_id node) ?cm))
                 (filter isRelationshipNode (nodes model))) = Some rels"
    by blast
  from e r have "diagramModelToAST ?fuel model = Some \<lparr>entities = ents, relationships = rels\<rparr>"
    by (simp add: diagramModelToAST_def Let_def)
  then show ?thesis by blast
qed

text \<open>
  Claim C3, as the code has it. The reverse transform returns on every graph whose
  containment edges into composite attributes descend along some rank (a forest does),
  and raises no error. In what it returns, the relationships are those of the
  relationship nodes, in order, and for each of them: a left side that no relational
  edge supplies is the empty name with cardinality \<open>One\<close> and participation
  \<open>Partial\<close>; a right side that no edge supplies is the empty name with cardinality
  \<open>Many\<close> and participation \<open>Partial\<close>; a side that edges supply is read from the last
  of them, a missing cardinality being \<open>One\<close> on the left and \<open>Many\<close> on the right,
  a missing participation \<open>Partial\<close>.
\<close>

theorem reverse_side_defaults:
  "((\<forall>e \<in> set (edges model). isContainmentEdge e \<longrightarrow>
       (\<forall>c. buildNodeMap (nodes model) (targetId e) = Some c \<longrightarrow>
            n_type c = N_compositeAttribute \<longrightarrow>
            (rank :: jsstring \<Rightarrow> nat) (targetId e) < rank (sourceId e))) \<longrightarrow>
    (\<exists>fuel' ast'. diagramModelToAST fuel' model = Some ast')) \<and>
   (diagramModelToAST fuel model = Some ast \<longrightarrow>
    length (relationships ast) = length (relationshipNodes model) \<and>
    (\<forall>j < length (relationshipNodes model).
       ((\<forall>e \<in> set (relEdges model (relationshipNodes model ! j)).
            \<not> suppliesLeft (buildNodeMap (nodes model)) (relationshipNodes model ! j) e) \<longrightarrow>
        leftSide (relationships ast ! j) =
          \<lparr>entityName = [], cardinality = One, participation = Partial\<rparr>) \<and>
       ((\<forall>e \<in> set (relEdges model (relationshipNodes model ! j)).
            \<not> suppliesRight (buildNodeMap (nodes model)) (relationshipNodes model ! j) e) \<longrightarrow>
        rightSide (relationships ast ! j) =
          \<lparr>entityName = [], cardinality = Many, participation = Partial\<rparr>) \<and>
       (\<forall>es1 e es2.
          relEdges model (relationshipNodes model ! j) = es1 @ e # es2 \<and>
          suppliesLeft (buildNodeMap (nodes model)) (relationshipNodes model ! j) e \<and>
          (\<forall>e' \<in> set es2.
             \<not> suppliesLeft (buildNodeMap (nodes model)) (relationshipNodes model ! j) e') \<longrightarrow>
          leftSide (relationships ast ! j) = leftSideOf (buildNodeMap (nodes model)) e) \<and>
       (\<forall>es1 e es2.
          relEdges model (relationshipNodes model ! j) = es1 @ e # es2 \<and>
          suppliesRight (buildNodeMap (nodes model)) (relationshipNodes model ! j) e \<and>
          (\<forall>e' \<in> set es2.
             \<not> suppliesRight (buildNodeMap (nodes model)) (relationshipNodes model ! j) e') \<longrightarrow>
          rightSide (relationships ast ! j) = rightSideOf (buildNodeMap (nodes model)) e)))"
proof (intro conjI impI)
  assume "\<forall>e \<in> set (edges model). isContainmentEdge e \<longrightarrow>
       (\<forall>c. buildNodeMap (nodes model) (targetId e) = Some c \<longrightarrow>
            n_type c = N_compositeAttribute \<longrightarrow> rank (targetId e) < rank (sourceId e))"
  then show "\<exists>fuel' ast'. diagramModelToAST fuel' model = Some ast'"
    by (rule diagramModelToAST_returns)
next
  assume a: "diagramModelToAST fuel model = Some ast"
  from diagramModelToAST_relationships [OF a]
  show "length (relationships ast) = length (relationshipNodes model)" by simp
next
  assume a: "diagramModelToAST fuel model = Some ast"
  show "\<forall>j < length (relationshipNodes model).
       ((\<forall>e \<in> set (relEdges model (relationshipNodes model ! j)).
            \<not> suppliesLeft (buildNodeMap (nodes model)) (relationshipNodes model ! j) e) \<longrightarrow>
        leftSide (relationships ast ! j) =
          \<lparr>entityName = [], cardinality = One, participation = Partial\<rparr>) \<and>
       ((\<forall>e \<in> set (relEdges model (relationshipNodes model ! j)).
            \<not> suppliesRight (buildNodeMap (nodes model)) (relationshipNodes model ! j) e) \<longrightarrow>
        rightSide (relationships ast ! j) =
          \<lparr>entityName = [], cardinality = Many, participation = Partial\<rparr>) \<and>
       (\<forall>es1 e es2.
          relEdges model (relationshipNodes model ! j) = es1 @ e # es2 \<and>
          suppliesLeft (buildNodeMap (nodes model)) (relationshipNodes model ! j) e \<and>
          (\<forall>e' \<in> set es2.
             \<not> suppliesLeft (buildNodeMap (nodes model)) (relationshipNodes model ! j) e') \<longrightarrow>
          leftSide (relationships ast ! j) = leftSideOf (buildNodeMap (nodes model)) e) \<and>
       (\<forall>es1 e es2.
          relEdges model (relationshipNodes model ! j) = es1 @ e # es2 \<and>
          suppliesRight (buildNodeMap (nodes model)) (relationshipNodes model ! j) e \<and>
          (\<forall>e' \<in> set es2.
             \<not> suppliesRight (buildNodeMap (nodes model)) (relationshipNodes model ! j) e') \<longrightarrow>
          rightSide (relationships ast ! j) = rightSideOf (buildNodeMap (nodes model)) e)"
  proof (intro allI impI)
    fix j assume j: "j < length (relationshipNodes model)"
    let ?node = "relationshipNodes model ! j"
    from diagramModelToAST_relationships [OF a] j obtain attrs where
      r: "relationships ast ! j = relationshipOfNode model ?node attrs" by blast
    have l: "leftSide (relationships ast ! j) = fst (relationshipSides model ?node)"
      and rr: "rightSide (relationships ast ! j) = snd (relationshipSides model ?node)"
      unfolding r by (simp_all add: relationshipOfNode_def)
    show "((\<forall>e \<in> set (relEdges model ?node).
            \<not> suppliesLeft (buildNodeMap (nodes model)) ?node e) \<longrightarrow>
        leftSide (relationships ast ! j) =
          \<lparr>entityName = [], cardinality = One, participation = Partial\<rparr>) \<and>
       ((\<forall>e \<in> set (relEdges model ?node).
            \<not> suppliesRight (buildNodeMap (nodes model)) ?node e) \<longrightarrow>
        rightSide (relationships ast ! j) =
          \<lparr>entityName = [], cardinality = Many, participation = Partial\<rparr>) \<and>
       (\<forall>es1 e es2.
          relEdges model ?node = es1 @ e # es2 \<and>
          suppliesLeft (buildNodeMap (nodes model)) ?node e \<and>
          (\<forall>e' \<in> set es2. \<not> suppliesLeft (buildNodeMap (nodes model)) ?node e') \<longrightarrow>
          leftSide (relationships ast ! j) = leftSideOf (buildNodeMap (nodes model)) e) \<and>
       (\<forall>es1 e es2.
          relEdges model ?node = es1 @ e # es2 \<and>
          suppliesRight (buildNodeMap (nodes model)) ?node e \<and>
          (\<forall>e' \<in> set es2. \<not> suppliesRight (buildNodeMap (nodes model)) ?node e') \<longrightarrow>
          rightSide (relationships ast ! j) = rightSideOf (buildNodeMap (nodes model)) e)"
      unfolding l rr
      using relationshipSides_left_default [of model ?node]
        relationshipSides_right_default [of model ?node]
        relationshipSides_left_last [of model ?node]
        relationshipSides_right_last [of model ?node]
      by (auto simp: defaultLeftSide_def defaultRightSide_def)
  qed
qed


text \<open>
  Claim C3, as the spec states it, fails on the right side: a relationship node without
  any edge gets the right cardinality \<open>Many\<close>, not \<open>One\<close>.
\<close>

theorem reverse_side_defaults_counterexample:
  "diagramModelToAST 1 loneRelationshipModel =
     Some \<lparr>entities = [],
           relationships =
             [\<lparr>r_name = js ''places'', relationshipType = Normal,
               leftSide = \<lparr>entityName = [], cardinality = One, participation = Partial\<rparr>,
               rightSide = \<lparr>entityName = [], cardinality = Many, participation = Partial\<rparr>,
               verb = js ''places'', r_attributes = []\<rparr>]\<rparr> \<and>
   relEdges loneRelationshipModel (emptyNode (js ''n1'') N_relationship (js ''places'')) = [] \<and>
   Many \<noteq> One"
  by (simp add: loneRelationshipModel_def reverse_eval js_def)

lemma sidesModel_ast: "diagramModelToAST 2 sidesModel = Some sidesAst"
  by (simp add: sidesModel_def sidesAst_def reverse_eval js_def numeral_2_eq_2)

theorem reverse_side_defaults_witness:
  "diagramModelToAST 2 sidesModel = Some sidesAst \<and>
   (\<exists>fuel ast. diagramModelToAST fuel sidesModel = Some ast) \<and>
   leftSide (relationships sidesAst ! 0) =
     \<lparr>entityName = js ''Customer'', cardinality = One, participation = Partial\<rparr> \<and>
   rightSide (relationships sidesAst ! 0) =
     \<lparr>entityName = [], cardinality = Many, participation = Partial\<rparr>"
proof -
  let ?r = "emptyNode (js ''n2'') N_relationship (js ''places'')"
  let ?e = "(emptyEdge (js ''e1'') (js ''n1'') (js ''n2''))\<lparr>targetCardinality := Some Many\<rparr>"
  let ?nm = "buildNodeMap (nodes sidesModel)"
  note t = reverse_side_defaults [of sidesModel sidesRank 2 sidesAst]
  have rank: "\<forall>e \<in> set (edges sidesModel). isContainmentEdge e \<longrightarrow>
       (\<forall>c. ?nm (targetId e) = Some c \<longrightarrow>
            n_type c = N_compositeAttribute \<longrightarrow> sidesRank (targetId e) < sidesRank (sourceId e))"
    by (simp add: sidesModel_def sidesRank_def reverse_eval js_def)
  have rn: "relationshipNodes sidesModel = [?r]"
    by (simp add: sidesModel_def reverse_eval)
  have re: "relEdges sidesModel ?r = [] @ ?e # []"
    by (simp add: sidesModel_def reverse_eval js_def)
  have sl: "suppliesLeft ?nm ?r ?e"
    by (simp add: sidesModel_def suppliesLeft_def reverse_eval js_def)
  have sr: "\<forall>e \<in> set (relEdges sidesModel ?r). \<not> suppliesRight ?nm ?r e"
    unfolding re by (simp add: sidesModel_def suppliesRight_def reverse_eval js_def)
  have lv: "leftSideOf ?nm ?e =
      \<lparr>entityName = js ''Customer'', cardinality = One, participation = Partial\<rparr>"
    by (simp add: sidesModel_def leftSideOf_def reverse_eval js_def)
  from t rank have ex: "\<exists>fuel ast. diagramModelToAST fuel sidesModel = Some ast" by blast
  from t sidesModel_ast have
    "\<forall>j < length (relationshipNodes sidesModel).
       ((\<forall>e \<in> set (relEdges sidesModel (relationshipNodes sidesModel ! j)).
            \<not> suppliesRight ?nm (relationshipNodes sidesModel ! j) e) \<longrightarrow>
        rightSide (relationships sidesAst ! j) =
          \<lparr>entityName = [], cardinality = Many, participation = Partial\<rparr>) \<and>
       (\<forall>es1 e es2.
          relEdges sidesModel (relationshipNodes sidesModel ! j) = es1 @ e # es2 \<and>
          suppliesLeft ?nm (relationshipNodes sidesModel ! j) e \<and>
          (\<forall>e' \<in> set es2. \<not> suppliesLeft ?nm (relationshipNodes sidesModel ! j) e') \<longrightarrow>
          leftSide (relationships sidesAst ! j) = leftSideOf ?nm e)"
    by blast
  then have
    "((\<forall>e \<in> set (relEdges sidesModel ?r). \<not> suppliesRight ?nm ?r e) \<longrightarrow>
        rightSide (relationships sidesAst ! 0) =
          \<lparr>entityName = [], cardinality = Many, participation = Partial\<rparr>) \<and>
       (\<forall>es1 e es2.
          relEdges sidesModel ?r = es1 @ e # es2 \<and> suppliesLeft ?nm ?r e \<and>
          (\<forall>e' \<in> set es2. \<not> suppliesLeft ?nm ?r e') \<longrightarrow>
          leftSide (relationships sidesAst ! 0) = leftSideOf ?nm e)"
    unfolding rn by simp
  with sr re sl have "rightSide (relationships sidesAst ! 0) =
          \<lparr>entityName = [], cardinality = Many, participation = Partial\<rparr>"
    and "leftSide (relationships sidesAst ! 0) = leftSideOf ?nm ?e"
    by (blast, (metis empty_iff list.set(1)))
  with lv ex sidesModel_ast show ?thesis by simp
qed

section \<open>Properties of the layout\<close>

subsection \<open>Rounding\<close>

lemma pow2_nonpos: "d \<le> 0 \<Longrightarrow> pow2 d = 1 / 2 ^ nat (- d)"
  by (cases "d = 0") (simp_all add: pow2_def)

lemma exponentOf_of_int:
  assumes "1 \<le> n" and "n < 2 ^ 53"
  shows "0 \<le> exponentOf (of_int n)" "exponentOf (of_int n) \<le> 52"
proof -
  from assms have e: "exponentOf (of_int n) = int (floorlog 2 (nat n)) - 1"
    by (simp add: exponentOf_def)
  from assms(1) have "0 < nat n" by simp
  then have "0 < floorlog 2 (nat n)" by (simp add: floorlog_def)
  with e show "0 \<le> exponentOf (of_int n)" by simp
  from assms have "nat n < 2 ^ 53" by (simp add: nat_less_iff)
  then have "floorlog 2 (nat n) \<le> 53" by (simp add: floorlog_le_iff)
  with e show "exponentOf (of_int n) \<le> 52" by simp
qed

text \<open>An integer below \<open>2^53\<close> in magnitude is a double.\<close>

lemma roundDouble_of_int:
  assumes "\<bar>n\<bar> < 2 ^ 53"
  shows "roundDouble (of_int n) = of_int n"
proof (cases "n = 0")
  case True
  then show ?thesis by (simp add: roundDouble_def)
next
  case False
  define a where "a = \<bar>n\<bar>"
  from False assms have a: "1 \<le> a" "a < 2 ^ 53" by (simp_all add: a_def)
  define d where "d = exponentOf (of_int a) - 52"
  from exponentOf_of_int [OF a] have d: "- 52 \<le> d" "d \<le> 0" by (simp_all add: d_def)
  define k where "k = nat (- d)"
  from d have mx: "max d (- 1074) = d" by simp
  have u: "pow2 d = 1 / 2 ^ k" using d by (simp add: pow2_nonpos k_def)
  have m: "of_int a / (1 / 2 ^ k) = (of_int (a * 2 ^ k) :: rat)" by simp
  have abs: "\<bar>of_int n :: rat\<bar> = of_int a" by (simp add: a_def)
  have "roundDouble (of_int n) = sgn (of_int n) * of_int (a * 2 ^ k) * (1 / 2 ^ k)"
    using False unfolding roundDouble_def abs d_def [symmetric] mx u m Let_def
    by simp
  also have "\<dots> = sgn (of_int n) * of_int a" by simp
  also have "\<dots> = of_int n" unfolding a_def
    by (metis abs a_def mult_sgn_abs)
  finally show ?thesis .
qed


lemma roundDouble_numeral:
  "numeral w < (2 :: int) ^ 53 \<Longrightarrow> roundDouble (numeral w) = numeral w"
  using roundDouble_of_int [of "numeral w"] by simp


lemma floor_numeral_div:
  "\<lfloor>numeral a / numeral b :: rat\<rfloor> = numeral a div numeral b"
  using floor_divide_of_int_eq [of "numeral a" "numeral b", where ?'a = rat] by simp

lemma ceiling_numeral_div:
  "\<lceil>numeral a / numeral b :: rat\<rceil> = - (- numeral a div numeral b)"
  using floor_divide_of_int_eq [of "- numeral a" "numeral b", where ?'a = rat]
  by (simp add: ceiling_def)

text \<open>The equations that the simplifier unfolds to round a concrete number.\<close>

lemmas round_eval = numAdd_def numSub_def numMul_def numDiv_def roundDouble_def
  exponentOf_def pow2_def Let_def compute_floorlog floor_numeral_div ceiling_numeral_div

text \<open>
  The mean of 100, 300 and 300, which the relationship of \<open>meanModel\<close> gets as its
  \<open>x\<close>, is the double that prints as \<^verbatim>\<open>233.33333333333334\<close>.
\<close>

lemma roundDouble_example:
  "numDiv 700 3 = 8209686820727467 / 35184372088832"
  by (simp add: round_eval)

subsection \<open>The row of the entities\<close>
















subsection \<open>What the layout depends on\<close>





















subsection \<open>The claim\<close>


lemma twinModel_positions:
  "nodePositions twinModel = [js ''n1'' \<mapsto> (300, 250)]"
  by (simp add: nodePositions_def calculateLayout_def twinModel_def entityNodes_def
        relationshipNodes_def attributeNodes_def isEntityNode_def isRelationshipNode_def
        isAttributeNode_def emptyNode_def buildParentMap_def buildAttributeGroups_def
        placeEntity_def HORIZONTAL_SPACING_def numAdd_def roundDouble_numeral)

text \<open>
  The relationship of \<open>meanModel\<close> is placed at the mean of its three neighbours as
  the source computes it, in doubles.
\<close>

lemma meanModel_relationship:
  "nodePositions meanModel (js ''n3'') = Some (8209686820727467 / 35184372088832, 400)"
  by (simp add: nodePositions_def calculateLayout_def meanModel_def entityNodes_def
        relationshipNodes_def attributeNodes_def isEntityNode_def isRelationshipNode_def
        isAttributeNode_def isRelationalEdge_def emptyNode_def emptyEdge_def
        buildParentMap_def buildAttributeGroups_def placeEntity_def placeRelationship_def
        HORIZONTAL_SPACING_def VERTICAL_SPACING_def js_def round_eval)



text \<open>
  The graph \<open>twinModel\<close> has two entity nodes with the identifier \<^verbatim>\<open>n1\<close>. The loop
  over the entities writes the position of the second over that of the first, so
  that both are drawn at \<open>(300, 250)\<close>: the first entity is not at \<open>x = 100\<close> and
  the two \<open>x\<close> do not increase.
\<close>

theorem layout_entity_row_counterexample:
  "length (entityNodes twinModel) = 2 \<and>
   length (entityNodes twinModel) < 2 ^ 32 \<and>
   \<not> distinct (map n_id (nodes twinModel)) \<and>
   nodePositions twinModel (n_id (entityNodes twinModel ! 0)) = Some (300, 250) \<and>
   nodePositions twinModel (n_id (entityNodes twinModel ! 1)) = Some (300, 250) \<and>
   nodePositions twinModel (n_id (entityNodes twinModel ! 0)) \<noteq>
     Some (100 + 200 * of_nat 0, 250)"
  unfolding twinModel_positions
  by (simp add: twinModel_def entityNodes_def isEntityNode_def emptyNode_def)

end
